theory Spec2Isabelle
  imports Complex_Main "HOL-Library.Word" "HOL-Library.Signed_Division"
begin

section \<open>Common Go types\<close>

text \<open>
  Go's \<^verbatim>\<open>int64\<close> (and \<^verbatim>\<open>int\<close> on a 64-bit platform) is a 64-bit word: \<open>+\<close> and \<open>-\<close> wrap
  around, \<open>sint\<close> reads the two's complement value, and the comparisons of the source
  (\<^verbatim>\<open>>=\<close>, \<^verbatim>\<open>>\<close>, \<^verbatim>\<open><=\<close>) are comparisons of \<open>sint\<close>.

  \<^verbatim>\<open>float64\<close> is modelled by \<open>real\<close>: finite values, rounding not modelled. Where the
  source divides by a value that can be zero, the IEEE result (infinity or NaN) is written
  out as a branch of the model.

  \<^verbatim>\<open>time.Time\<close> is the wall-clock instant in nanoseconds since the Unix epoch, and
  \<^verbatim>\<open>time.Duration\<close> a number of nanoseconds.
\<close>

type_synonym int64 = "64 word"
type_synonym float64 = real
type_synonym Time = int
type_synonym Duration = int

definition Millisecond :: Duration where
  "Millisecond = 1000000"

definition Second :: Duration where
  "Second = 1000000000"

definition Minute :: Duration where
  "Minute = 60 * Second"

definition Hour :: Duration where
  "Hour = 60 * Minute"

definition minDuration :: Duration where
  "minDuration = - (2 ^ 63)"

definition maxDuration :: Duration where
  "maxDuration = 2 ^ 63 - 1"

text \<open>\<^verbatim>\<open>t.Sub(u)\<close>: the duration \<open>t - u\<close>, saturated to the range of \<^verbatim>\<open>int64\<close>.\<close>

definition Time_Sub :: "Time \<Rightarrow> Time \<Rightarrow> Duration" where
  "Time_Sub t u =
     (if t - u > maxDuration then maxDuration
      else if t - u < minDuration then minDuration
      else t - u)"

text \<open>
  \<^verbatim>\<open>d.Seconds()\<close>: \<^verbatim>\<open>sec := d / Second; nsec := d % Second;
  return float64(sec) + float64(nsec)/1e9\<close>, Go's division truncating towards zero.
\<close>

definition Seconds :: "Duration \<Rightarrow> float64" where
  "Seconds d = real_of_int (d sdiv Second) + real_of_int (d smod Second) / 1000000000"

text \<open>The zero value \<^verbatim>\<open>time.Time{}\<close>: January 1, year 1, 00:00:00 UTC.\<close>

definition zero_Time :: Time where
  "zero_Time = - 62135596800 * Second"

text \<open>
  Go errors: a message, or \<^verbatim>\<open>fmt.Errorf("msg: %w", err)\<close> wrapping another error.
\<close>

datatype error = Err string | Errorf string error

section \<open>Package mysql: snapshots and the delta engine\<close>

record DigestData =
  Digest :: string
  SchemaName :: string
  DigestText :: string
  CountStar :: int64
  SumTimerWait :: int64
  SumLockTime :: int64
  SumErrors :: int64
  SumWarnings :: int64
  SumRowsAffected :: int64
  SumRowsSent :: int64
  SumRowsExamined :: int64
  SumCreatedTmpTables :: int64
  SumCreatedTmpDiskTables :: int64
  SumSortRows :: int64
  SumNoIndexUsed :: int64
  SumNoGoodIndexUsed :: int64
  DigestTimestamp :: Time

record Snapshot =
  Digests :: "string \<rightharpoonup> DigestData"
  Timestamp :: Time
  InstanceID :: string

record DeltaResult =
  DeltaDigest :: string
  DeltaSchemaName :: string
  DeltaDigestText :: string
  TimePeriodSecs :: float64
  DeltaCountStar :: int64
  DeltaSumTimerWait :: int64
  DeltaSumLockTime :: int64
  DeltaSumErrors :: int64
  DeltaSumWarnings :: int64
  DeltaSumRowsAffected :: int64
  DeltaSumRowsSent :: int64
  DeltaSumRowsExamined :: int64
  DeltaSumCreatedTmpTables :: int64
  DeltaSumCreatedTmpDiskTables :: int64
  DeltaSumSortRows :: int64
  DeltaSumNoIndexUsed :: int64
  DeltaSumNoGoodIndexUsed :: int64

text \<open>
  The closure \<^verbatim>\<open>calcDelta\<close> of \<^verbatim>\<open>CalculateDeltas\<close>:
  \<^verbatim>\<open>if curr >= prev { return curr - prev }; return curr\<close>.
\<close>

definition calcDelta :: "int64 \<Rightarrow> int64 \<Rightarrow> int64" where
  "calcDelta cur prv = (if sint prv \<le> sint cur then cur - prv else cur)"

text \<open>
  The body of the \<^verbatim>\<open>range\<close> loop of \<^verbatim>\<open>CalculateDeltas\<close> for one entry
  \<open>(digest, currData)\<close> of \<^verbatim>\<open>curr.Digests\<close>: the record it appends, or \<open>None\<close> when it
  appends nothing.
\<close>

definition delta_entry :: "Snapshot \<Rightarrow> float64 \<Rightarrow> string \<Rightarrow> DigestData \<Rightarrow> DeltaResult option" where
  "delta_entry prev timeDiffSecs digest currData =
     (case Digests prev digest of
        None \<Rightarrow>
          Some \<lparr> DeltaDigest = digest,
                 DeltaSchemaName = SchemaName currData,
                 DeltaDigestText = DigestText currData,
                 TimePeriodSecs = timeDiffSecs,
                 DeltaCountStar = CountStar currData,
                 DeltaSumTimerWait = SumTimerWait currData,
                 DeltaSumLockTime = SumLockTime currData,
                 DeltaSumErrors = SumErrors currData,
                 DeltaSumWarnings = SumWarnings currData,
                 DeltaSumRowsAffected = SumRowsAffected currData,
                 DeltaSumRowsSent = SumRowsSent currData,
                 DeltaSumRowsExamined = SumRowsExamined currData,
                 DeltaSumCreatedTmpTables = SumCreatedTmpTables currData,
                 DeltaSumCreatedTmpDiskTables = SumCreatedTmpDiskTables currData,
                 DeltaSumSortRows = SumSortRows currData,
                 DeltaSumNoIndexUsed = SumNoIndexUsed currData,
                 DeltaSumNoGoodIndexUsed = SumNoGoodIndexUsed currData \<rparr>
      | Some prevData \<Rightarrow>
          (let deltaCountStar =
                 (if sint (CountStar prevData) \<le> sint (CountStar currData)
                  then CountStar currData - CountStar prevData
                  else CountStar currData)
           in if 0 < sint deltaCountStar
              then Some \<lparr> DeltaDigest = digest,
                          DeltaSchemaName = SchemaName currData,
                          DeltaDigestText = DigestText currData,
                          TimePeriodSecs = timeDiffSecs,
                          DeltaCountStar = deltaCountStar,
                          DeltaSumTimerWait = calcDelta (SumTimerWait currData) (SumTimerWait prevData),
                          DeltaSumLockTime = calcDelta (SumLockTime currData) (SumLockTime prevData),
                          DeltaSumErrors = calcDelta (SumErrors currData) (SumErrors prevData),
                          DeltaSumWarnings = calcDelta (SumWarnings currData) (SumWarnings prevData),
                          DeltaSumRowsAffected =
                            calcDelta (SumRowsAffected currData) (SumRowsAffected prevData),
                          DeltaSumRowsSent = calcDelta (SumRowsSent currData) (SumRowsSent prevData),
                          DeltaSumRowsExamined =
                            calcDelta (SumRowsExamined currData) (SumRowsExamined prevData),
                          DeltaSumCreatedTmpTables =
                            calcDelta (SumCreatedTmpTables currData) (SumCreatedTmpTables prevData),
                          DeltaSumCreatedTmpDiskTables =
                            calcDelta (SumCreatedTmpDiskTables currData)
                              (SumCreatedTmpDiskTables prevData),
                          DeltaSumSortRows = calcDelta (SumSortRows currData) (SumSortRows prevData),
                          DeltaSumNoIndexUsed =
                            calcDelta (SumNoIndexUsed currData) (SumNoIndexUsed prevData),
                          DeltaSumNoGoodIndexUsed =
                            calcDelta (SumNoGoodIndexUsed currData) (SumNoGoodIndexUsed prevData) \<rparr>
              else None))"

text \<open>
  The loop \<^verbatim>\<open>for digest, currData := range curr.Digests\<close>. Go leaves the order of a
  \<^verbatim>\<open>range\<close> over a map unspecified, so the order is an argument: \<open>ks\<close> lists the keys in
  the order the runtime visits them. \<open>results\<close> is the slice built so far.
\<close>

fun deltas_loop ::
  "Snapshot \<Rightarrow> Snapshot \<Rightarrow> float64 \<Rightarrow> string list \<Rightarrow> DeltaResult list \<Rightarrow> DeltaResult list" where
  "deltas_loop prev cur timeDiffSecs [] results = results"
| "deltas_loop prev cur timeDiffSecs (digest # ks) results =
     (case Digests cur digest of
        None \<Rightarrow> deltas_loop prev cur timeDiffSecs ks results
      | Some currData \<Rightarrow>
          (case delta_entry prev timeDiffSecs digest currData of
             None \<Rightarrow> deltas_loop prev cur timeDiffSecs ks results
           | Some r \<Rightarrow> deltas_loop prev cur timeDiffSecs ks (results @ [r])))"

text \<open>
  \<^verbatim>\<open>CalculateDeltas(prev, curr *Snapshot) []DeltaResult\<close>. A nil pointer is \<open>None\<close>; the nil
  slice returned for a nil argument is the empty list.
\<close>

definition CalculateDeltas ::
  "string list \<Rightarrow> Snapshot option \<Rightarrow> Snapshot option \<Rightarrow> DeltaResult list" where
  "CalculateDeltas ks prev cur =
     (case prev of
        None \<Rightarrow> []
      | Some p \<Rightarrow>
          (case cur of
             None \<Rightarrow> []
           | Some c \<Rightarrow> deltas_loop p c (Seconds (Time_Sub (Timestamp c) (Timestamp p))) ks []))"

section \<open>Package postgresql: snapshots and the delta engine\<close>

text \<open>
  The package declares the same type and function names as package mysql; here they carry
  the prefix \<open>pg_\<close> (or \<open>PG\<close> for record fields that would clash).
\<close>

record QueryData =
  QueryID :: string
  UserID :: string
  DBID :: string
  Query :: string
  Calls :: int64
  TotalPlanTime :: float64
  TotalExecTime :: float64
  Rows :: int64
  SharedBlksHit :: int64
  SharedBlksRead :: int64
  SharedBlksDirtied :: int64
  SharedBlksWritten :: int64
  LocalBlksHit :: int64
  LocalBlksRead :: int64
  LocalBlksDirtied :: int64
  LocalBlksWritten :: int64
  TempBlksRead :: int64
  TempBlksWritten :: int64
  BlkReadTime :: float64
  BlkWriteTime :: float64
  QueryTimestamp :: Time

record pg_Snapshot =
  Queries :: "string \<rightharpoonup> QueryData"
  PGTimestamp :: Time
  PGInstanceID :: string

record pg_DeltaResult =
  DeltaQueryID :: string
  DeltaUserID :: string
  DeltaDBID :: string
  DeltaQuery :: string
  PGTimePeriodSecs :: float64
  DeltaCalls :: int64
  DeltaTotalPlanTime :: float64
  DeltaTotalExecTime :: float64
  DeltaRows :: int64
  DeltaSharedBlksHit :: int64
  DeltaSharedBlksRead :: int64
  DeltaSharedBlksDirtied :: int64
  DeltaSharedBlksWritten :: int64
  DeltaLocalBlksHit :: int64
  DeltaLocalBlksRead :: int64
  DeltaLocalBlksDirtied :: int64
  DeltaLocalBlksWritten :: int64
  DeltaTempBlksRead :: int64
  DeltaTempBlksWritten :: int64
  DeltaBlkReadTime :: float64
  DeltaBlkWriteTime :: float64

text \<open>
  The closures \<^verbatim>\<open>calcDeltaInt64\<close> and \<^verbatim>\<open>calcDeltaFloat64\<close>, both
  \<^verbatim>\<open>if curr >= prev { return curr - prev }; return curr\<close>.
\<close>

definition calcDeltaInt64 :: "int64 \<Rightarrow> int64 \<Rightarrow> int64" where
  "calcDeltaInt64 cur prv = (if sint prv \<le> sint cur then cur - prv else cur)"

definition calcDeltaFloat64 :: "float64 \<Rightarrow> float64 \<Rightarrow> float64" where
  "calcDeltaFloat64 cur prv = (if prv \<le> cur then cur - prv else cur)"

text \<open>The body of the \<^verbatim>\<open>range\<close> loop for one entry \<open>(queryID, currData)\<close>.\<close>

definition pg_delta_entry ::
  "pg_Snapshot \<Rightarrow> float64 \<Rightarrow> string \<Rightarrow> QueryData \<Rightarrow> pg_DeltaResult option" where
  "pg_delta_entry prev timeDiffSecs queryID currData =
     (case Queries prev queryID of
        None \<Rightarrow>
          Some \<lparr> DeltaQueryID = queryID,
                 DeltaUserID = UserID currData,
                 DeltaDBID = DBID currData,
                 DeltaQuery = Query currData,
                 PGTimePeriodSecs = timeDiffSecs,
                 DeltaCalls = Calls currData,
                 DeltaTotalPlanTime = TotalPlanTime currData,
                 DeltaTotalExecTime = TotalExecTime currData,
                 DeltaRows = Rows currData,
                 DeltaSharedBlksHit = SharedBlksHit currData,
                 DeltaSharedBlksRead = SharedBlksRead currData,
                 DeltaSharedBlksDirtied = SharedBlksDirtied currData,
                 DeltaSharedBlksWritten = SharedBlksWritten currData,
                 DeltaLocalBlksHit = LocalBlksHit currData,
                 DeltaLocalBlksRead = LocalBlksRead currData,
                 DeltaLocalBlksDirtied = LocalBlksDirtied currData,
                 DeltaLocalBlksWritten = LocalBlksWritten currData,
                 DeltaTempBlksRead = TempBlksRead currData,
                 DeltaTempBlksWritten = TempBlksWritten currData,
                 DeltaBlkReadTime = BlkReadTime currData,
                 DeltaBlkWriteTime = BlkWriteTime currData \<rparr>
      | Some prevData \<Rightarrow>
          (let deltaCalls =
                 (if sint (Calls prevData) \<le> sint (Calls currData)
                  then Calls currData - Calls prevData
                  else Calls currData)
           in if 0 < sint deltaCalls
              then Some \<lparr> DeltaQueryID = queryID,
                          DeltaUserID = UserID currData,
                          DeltaDBID = DBID currData,
                          DeltaQuery = Query currData,
                          PGTimePeriodSecs = timeDiffSecs,
                          DeltaCalls = deltaCalls,
                          DeltaTotalPlanTime = calcDeltaFloat64 (TotalPlanTime currData) (TotalPlanTime prevData),
                          DeltaTotalExecTime = calcDeltaFloat64 (TotalExecTime currData) (TotalExecTime prevData),
                          DeltaRows = calcDeltaInt64 (Rows currData) (Rows prevData),
                          DeltaSharedBlksHit = calcDeltaInt64 (SharedBlksHit currData) (SharedBlksHit prevData),
                          DeltaSharedBlksRead = calcDeltaInt64 (SharedBlksRead currData) (SharedBlksRead prevData),
                          DeltaSharedBlksDirtied = calcDeltaInt64 (SharedBlksDirtied currData) (SharedBlksDirtied prevData),
                          DeltaSharedBlksWritten = calcDeltaInt64 (SharedBlksWritten currData) (SharedBlksWritten prevData),
                          DeltaLocalBlksHit = calcDeltaInt64 (LocalBlksHit currData) (LocalBlksHit prevData),
                          DeltaLocalBlksRead = calcDeltaInt64 (LocalBlksRead currData) (LocalBlksRead prevData),
                          DeltaLocalBlksDirtied = calcDeltaInt64 (LocalBlksDirtied currData) (LocalBlksDirtied prevData),
                          DeltaLocalBlksWritten = calcDeltaInt64 (LocalBlksWritten currData) (LocalBlksWritten prevData),
                          DeltaTempBlksRead = calcDeltaInt64 (TempBlksRead currData) (TempBlksRead prevData),
                          DeltaTempBlksWritten = calcDeltaInt64 (TempBlksWritten currData) (TempBlksWritten prevData),
                          DeltaBlkReadTime = calcDeltaFloat64 (BlkReadTime currData) (BlkReadTime prevData),
                          DeltaBlkWriteTime = calcDeltaFloat64 (BlkWriteTime currData) (BlkWriteTime prevData) \<rparr>
              else None))"

text \<open>The loop \<^verbatim>\<open>for queryID, currData := range curr.Queries\<close>, in the order \<open>ks\<close>.\<close>

fun pg_deltas_loop ::
  "pg_Snapshot \<Rightarrow> pg_Snapshot \<Rightarrow> float64 \<Rightarrow> string list \<Rightarrow> pg_DeltaResult list
     \<Rightarrow> pg_DeltaResult list" where
  "pg_deltas_loop prev cur timeDiffSecs [] results = results"
| "pg_deltas_loop prev cur timeDiffSecs (queryID # ks) results =
     (case Queries cur queryID of
        None \<Rightarrow> pg_deltas_loop prev cur timeDiffSecs ks results
      | Some currData \<Rightarrow>
          (case pg_delta_entry prev timeDiffSecs queryID currData of
             None \<Rightarrow> pg_deltas_loop prev cur timeDiffSecs ks results
           | Some r \<Rightarrow> pg_deltas_loop prev cur timeDiffSecs ks (results @ [r])))"

definition pg_CalculateDeltas ::
  "string list \<Rightarrow> pg_Snapshot option \<Rightarrow> pg_Snapshot option \<Rightarrow> pg_DeltaResult list" where
  "pg_CalculateDeltas ks prev cur =
     (case prev of
        None \<Rightarrow> []
      | Some p \<Rightarrow>
          (case cur of
             None \<Rightarrow> []
           | Some c \<Rightarrow>
               pg_deltas_loop p c (Seconds (Time_Sub (PGTimestamp c) (PGTimestamp p))) ks []))"

section \<open>Log batches (pdata \<^verbatim>\<open>plog\<close>)\<close>

text \<open>
  The part of \<^verbatim>\<open>plog.Logs\<close> that \<^verbatim>\<open>deltaToLogs\<close> fills: resource logs with resource
  attributes, scope logs with a scope name, log records with timestamp, severity, attributes
  and body. An attribute map (\<^verbatim>\<open>pcommon.Map\<close>) is a sequence of key-value pairs;
  \<^verbatim>\<open>PutStr\<close>, \<^verbatim>\<open>PutInt\<close> and \<^verbatim>\<open>PutDouble\<close> replace the value of a key that is present and
  append the pair otherwise.
\<close>

datatype AnyValue = StrVal string | IntVal int64 | DoubleVal float64

type_synonym AttrMap = "(string \<times> AnyValue) list"

fun Put :: "string \<Rightarrow> AnyValue \<Rightarrow> AttrMap \<Rightarrow> AttrMap" where
  "Put k v [] = [(k, v)]"
| "Put k v ((k', v') # m) = (if k' = k then (k, v) # m else (k', v') # Put k v m)"

definition PutStr :: "string \<Rightarrow> string \<Rightarrow> AttrMap \<Rightarrow> AttrMap" where
  "PutStr k v m = Put k (StrVal v) m"

definition PutInt :: "string \<Rightarrow> int64 \<Rightarrow> AttrMap \<Rightarrow> AttrMap" where
  "PutInt k v m = Put k (IntVal v) m"

definition PutDouble :: "string \<Rightarrow> float64 \<Rightarrow> AttrMap \<Rightarrow> AttrMap" where
  "PutDouble k v m = Put k (DoubleVal v) m"

text \<open>\<^verbatim>\<open>Map.Get\<close>: the value of the first pair with the key.\<close>

definition Get :: "AttrMap \<Rightarrow> string \<Rightarrow> AnyValue option" where
  "Get m k = map_of m k"

text \<open>A sequence of \<^verbatim>\<open>Put\<close> calls on one map, in program order.\<close>

definition puts :: "(AttrMap \<Rightarrow> AttrMap) list \<Rightarrow> AttrMap \<Rightarrow> AttrMap" where
  "puts fs m = fold (\<lambda>f. f) fs m"

definition SeverityNumberInfo :: nat where
  "SeverityNumberInfo = 9"

record LogRecord =
  LogTimestamp :: Time
  SeverityNumber :: nat
  SeverityText :: string
  Attributes :: AttrMap
  Body :: string

record ScopeLogs =
  ScopeName :: string
  LogRecords :: "LogRecord list"

record ResourceLogs =
  ResourceAttributes :: AttrMap
  ScopeLogsSlice :: "ScopeLogs list"

type_synonym Logs = "ResourceLogs list"

text \<open>Every log record of a batch, over all resources and scopes.\<close>

definition all_log_records :: "Logs \<Rightarrow> LogRecord list" where
  "all_log_records logs = concat (map (\<lambda>rl. concat (map LogRecords (ScopeLogsSlice rl))) logs)"

section \<open>Package mysql: the collector\<close>

record Collector =
  dsn :: string
  instanceID :: string

type_synonym SnapshotStore = "string \<rightharpoonup> Snapshot"

definition NewSnapshotStore :: SnapshotStore where
  "NewSnapshotStore = Map.empty"

definition StoreSnapshot :: "SnapshotStore \<Rightarrow> string \<Rightarrow> Snapshot option \<Rightarrow> SnapshotStore" where
  "StoreSnapshot s iid snapshot = s(iid := snapshot)"

definition GetSnapshot :: "SnapshotStore \<Rightarrow> string \<Rightarrow> Snapshot option" where
  "GetSnapshot s iid = s iid"

text \<open>
  The log record \<^verbatim>\<open>deltaToLogs\<close> builds for one delta; \<open>now\<close> is the reading of
  \<^verbatim>\<open>time.Now()\<close> taken for it.
\<close>

definition delta_log_record :: "Time \<Rightarrow> DeltaResult \<Rightarrow> LogRecord" where
  "delta_log_record now delta =
     \<lparr> LogTimestamp = now,
       SeverityNumber = SeverityNumberInfo,
       SeverityText = ''INFO'',
       Attributes = puts
         [PutStr ''db.statement.digest'' (DeltaDigest delta),
          PutStr ''db.statement.sample'' (DeltaDigestText delta),
          PutStr ''db.schema'' (DeltaSchemaName delta),
          PutInt ''db.query.calls.delta'' (DeltaCountStar delta),
          PutInt ''db.query.total_timer_wait.delta'' (DeltaSumTimerWait delta),
          PutInt ''db.query.lock_time.delta'' (DeltaSumLockTime delta),
          PutInt ''db.query.errors.delta'' (DeltaSumErrors delta),
          PutInt ''db.query.warnings.delta'' (DeltaSumWarnings delta),
          PutInt ''db.query.rows_affected.delta'' (DeltaSumRowsAffected delta),
          PutInt ''db.query.rows_sent.delta'' (DeltaSumRowsSent delta),
          PutInt ''db.query.rows_examined.delta'' (DeltaSumRowsExamined delta),
          PutInt ''db.query.created_tmp_tables.delta'' (DeltaSumCreatedTmpTables delta),
          PutInt ''db.query.created_tmp_disk_tables.delta'' (DeltaSumCreatedTmpDiskTables delta),
          PutInt ''db.query.sort_rows.delta'' (DeltaSumSortRows delta),
          PutInt ''db.query.no_index_used.delta'' (DeltaSumNoIndexUsed delta),
          PutInt ''db.query.no_good_index_used.delta'' (DeltaSumNoGoodIndexUsed delta),
          PutDouble ''db.query.time_period_seconds'' (TimePeriodSecs delta)] [],
       Body = DeltaDigestText delta \<rparr>"

text \<open>
  The loop \<^verbatim>\<open>for _, delta := range deltas\<close> of \<^verbatim>\<open>deltaToLogs\<close>; \<open>records\<close> are the log
  records appended so far, and \<open>clock n\<close> is the reading of \<^verbatim>\<open>time.Now()\<close> for the record
  appended at position \<open>n\<close>.
\<close>

fun log_records_loop :: "(nat \<Rightarrow> Time) \<Rightarrow> DeltaResult list \<Rightarrow> LogRecord list \<Rightarrow> LogRecord list" where
  "log_records_loop clock [] records = records"
| "log_records_loop clock (delta # deltas) records =
     (if sint (DeltaCountStar delta) \<le> 0
      then log_records_loop clock deltas records
      else log_records_loop clock deltas
             (records @ [delta_log_record (clock (length records)) delta]))"

definition deltaToLogs :: "Collector \<Rightarrow> (nat \<Rightarrow> Time) \<Rightarrow> DeltaResult list \<Rightarrow> Logs" where
  "deltaToLogs c clock deltas =
     (if length deltas = 0 then []
      else [\<lparr> ResourceAttributes = puts
               [PutStr ''service.name'' ''obsidian-core'',
                PutStr ''db.system'' ''mysql'',
                PutStr ''resource.instance.id'' (instanceID c)] [],
             ScopeLogsSlice =
               [\<lparr> ScopeName = ''qanprocessor'',
                   LogRecords = log_records_loop clock deltas [] \<rparr>] \<rparr>])"

text \<open>
  What the database answers during one \<^verbatim>\<open>collectSnapshot\<close>: the scanned value of the
  \<^verbatim>\<open>performance_schema\<close> variable, the scanned \<^verbatim>\<open>enabled\<close> column of the
  \<^verbatim>\<open>statements_digest\<close> consumer, the result set of the digest query and the final
  \<^verbatim>\<open>rows.Err()\<close>. A row of the result set is either a scan error or the three nullable
  strings (schema name, digest, digest text; \<open>None\<close> is SQL NULL) with the counters as
  \<^verbatim>\<open>rows.Scan\<close> left them in \<^verbatim>\<open>data\<close>.
\<close>

type_synonym NullString = "string option"

definition NullString_String :: "NullString \<Rightarrow> string" where
  "NullString_String ns = (case ns of None \<Rightarrow> [] | Some v \<Rightarrow> v)"

type_synonym DigestRow = "NullString \<times> NullString \<times> NullString \<times> DigestData"

record mysql_DB =
  performance_schema_var :: "error + string"
  statements_digest_enabled :: "error + string"
  digest_query :: "error + (error + DigestRow) list"
  digest_rows_err :: "error option"

text \<open>The loop \<^verbatim>\<open>for rows.Next()\<close> of \<^verbatim>\<open>collectSnapshot\<close>, filling \<^verbatim>\<open>snapshot.Digests\<close>.\<close>

fun scan_digest_rows ::
  "Time \<Rightarrow> (error + DigestRow) list \<Rightarrow> (string \<rightharpoonup> DigestData) \<Rightarrow> (string \<rightharpoonup> DigestData)" where
  "scan_digest_rows ts [] digests = digests"
| "scan_digest_rows ts (Inl err # rows) digests = scan_digest_rows ts rows digests"
| "scan_digest_rows ts (Inr (schemaName, digest, digestText, data) # rows) digests =
     (case digest of
        None \<Rightarrow> scan_digest_rows ts rows digests
      | Some d \<Rightarrow>
          scan_digest_rows ts rows
            (digests(d \<mapsto> data \<lparr> Digest := d,
                                  SchemaName := NullString_String schemaName,
                                  DigestText := NullString_String digestText,
                                  DigestTimestamp := ts \<rparr>)))"

definition collectSnapshot :: "Collector \<Rightarrow> mysql_DB \<Rightarrow> Time \<Rightarrow> error + Snapshot" where
  "collectSnapshot c db now =
     (case performance_schema_var db of
        Inl err \<Rightarrow> Inl (Errorf ''failed to check performance_schema status'' err)
      | Inr perfSchemaEnabled \<Rightarrow>
          if perfSchemaEnabled \<noteq> ''ON''
          then Inl (Err (''performance_schema is not enabled (status: '' @ perfSchemaEnabled @ '')''))
          else
            (case statements_digest_enabled db of
               Inl err \<Rightarrow> Inl (Errorf ''failed to check statements_digest status'' err)
             | Inr digestsEnabled \<Rightarrow>
                 if digestsEnabled \<noteq> ''YES''
                 then Inl (Err ''performance_schema statements_digest consumer is not enabled'')
                 else
                   (case digest_query db of
                      Inl err \<Rightarrow> Inl (Errorf ''failed to query performance_schema'' err)
                    | Inr rows \<Rightarrow>
                        (let snapshot = \<lparr> Digests = scan_digest_rows now rows Map.empty,
                                           Timestamp = now,
                                           InstanceID = instanceID c \<rparr>
                         in case digest_rows_err db of
                              Some err \<Rightarrow>
                                Inl (Errorf ''error iterating performance_schema rows'' err)
                            | None \<Rightarrow> Inr snapshot))))"

text \<open>
  \<^verbatim>\<open>Collect\<close> returns the pair \<^verbatim>\<open>(plog.Logs, error)\<close> and leaves the snapshot store in a
  new state. \<open>now\<close> is the time of the snapshot, \<open>clock\<close> the later readings of
  \<^verbatim>\<open>time.Now()\<close> in \<^verbatim>\<open>deltaToLogs\<close>, \<open>ks\<close> the order of the \<^verbatim>\<open>range\<close> in
  \<^verbatim>\<open>CalculateDeltas\<close>.
\<close>

definition Collect ::
  "Collector \<Rightarrow> mysql_DB \<Rightarrow> Time \<Rightarrow> (nat \<Rightarrow> Time) \<Rightarrow> string list \<Rightarrow> SnapshotStore
     \<Rightarrow> (Logs \<times> error option) \<times> SnapshotStore" where
  "Collect c db now clock ks store =
     (case collectSnapshot c db now of
        Inl err \<Rightarrow> (([], Some err), store)
      | Inr snapshot \<Rightarrow>
          (let prevSnapshot = GetSnapshot store (instanceID c);
               store' = StoreSnapshot store (instanceID c) (Some snapshot)
           in case prevSnapshot of
                None \<Rightarrow> (([], None), store')
              | Some _ \<Rightarrow>
                  (let deltas = CalculateDeltas ks prevSnapshot (Some snapshot);
                       logs = deltaToLogs c clock deltas
                   in ((logs, None), store'))))"

section \<open>Package postgresql: the collector\<close>

record pg_Collector =
  connStr :: string
  pg_instanceID :: string

type_synonym pg_SnapshotStore = "string \<rightharpoonup> pg_Snapshot"

definition pg_NewSnapshotStore :: pg_SnapshotStore where
  "pg_NewSnapshotStore = Map.empty"

definition pg_StoreSnapshot ::
  "pg_SnapshotStore \<Rightarrow> string \<Rightarrow> pg_Snapshot option \<Rightarrow> pg_SnapshotStore" where
  "pg_StoreSnapshot s iid snapshot = s(iid := snapshot)"

definition pg_GetSnapshot :: "pg_SnapshotStore \<Rightarrow> string \<Rightarrow> pg_Snapshot option" where
  "pg_GetSnapshot s iid = s iid"

definition pg_delta_log_record :: "Time \<Rightarrow> pg_DeltaResult \<Rightarrow> LogRecord" where
  "pg_delta_log_record now delta =
     \<lparr> LogTimestamp = now,
       SeverityNumber = SeverityNumberInfo,
       SeverityText = ''INFO'',
       Attributes = puts
         [PutStr ''db.query.id'' (DeltaQueryID delta),
          PutStr ''db.statement.sample'' (DeltaQuery delta),
          PutStr ''db.user.id'' (DeltaUserID delta),
          PutStr ''db.name.id'' (DeltaDBID delta),
          PutInt ''db.query.calls.delta'' (DeltaCalls delta),
          PutDouble ''db.query.total_plan_time.delta'' (DeltaTotalPlanTime delta),
          PutDouble ''db.query.total_exec_time.delta'' (DeltaTotalExecTime delta),
          PutInt ''db.query.rows.delta'' (DeltaRows delta),
          PutInt ''db.query.shared_blks_hit.delta'' (DeltaSharedBlksHit delta),
          PutInt ''db.query.shared_blks_read.delta'' (DeltaSharedBlksRead delta),
          PutInt ''db.query.shared_blks_dirtied.delta'' (DeltaSharedBlksDirtied delta),
          PutInt ''db.query.shared_blks_written.delta'' (DeltaSharedBlksWritten delta),
          PutInt ''db.query.local_blks_hit.delta'' (DeltaLocalBlksHit delta),
          PutInt ''db.query.local_blks_read.delta'' (DeltaLocalBlksRead delta),
          PutInt ''db.query.local_blks_dirtied.delta'' (DeltaLocalBlksDirtied delta),
          PutInt ''db.query.local_blks_written.delta'' (DeltaLocalBlksWritten delta),
          PutInt ''db.query.temp_blks_read.delta'' (DeltaTempBlksRead delta),
          PutInt ''db.query.temp_blks_written.delta'' (DeltaTempBlksWritten delta),
          PutDouble ''db.query.blk_read_time.delta'' (DeltaBlkReadTime delta),
          PutDouble ''db.query.blk_write_time.delta'' (DeltaBlkWriteTime delta),
          PutInt ''db.query.rows_examined.delta'' (DeltaRows delta),
          PutDouble ''db.query.time_period_seconds'' (PGTimePeriodSecs delta)] [],
       Body = DeltaQuery delta \<rparr>"

fun pg_log_records_loop ::
  "(nat \<Rightarrow> Time) \<Rightarrow> pg_DeltaResult list \<Rightarrow> LogRecord list \<Rightarrow> LogRecord list" where
  "pg_log_records_loop clock [] records = records"
| "pg_log_records_loop clock (delta # deltas) records =
     (if sint (DeltaCalls delta) \<le> 0
      then pg_log_records_loop clock deltas records
      else pg_log_records_loop clock deltas
             (records @ [pg_delta_log_record (clock (length records)) delta]))"

definition pg_deltaToLogs :: "pg_Collector \<Rightarrow> (nat \<Rightarrow> Time) \<Rightarrow> pg_DeltaResult list \<Rightarrow> Logs" where
  "pg_deltaToLogs c clock deltas =
     (if length deltas = 0 then []
      else [\<lparr> ResourceAttributes = puts
               [PutStr ''service.name'' ''obsidian-core'',
                PutStr ''db.system'' ''postgresql'',
                PutStr ''resource.instance.id'' (pg_instanceID c)] [],
             ScopeLogsSlice =
               [\<lparr> ScopeName = ''qanprocessor'',
                   LogRecords = pg_log_records_loop clock deltas [] \<rparr>] \<rparr>])"

text \<open>
  What the database answers during one \<^verbatim>\<open>collectSnapshot\<close>: whether the
  \<^verbatim>\<open>pg_stat_statements\<close> extension exists, the result set of the query (a row is a scan
  error or the scanned \<^verbatim>\<open>data\<close>) and the final \<^verbatim>\<open>rows.Err()\<close>.
\<close>

record pg_DB =
  has_extension :: "error + bool"
  statements_query :: "error + (error + QueryData) list"
  statements_rows_err :: "error option"

fun scan_query_rows ::
  "Time \<Rightarrow> (error + QueryData) list \<Rightarrow> (string \<rightharpoonup> QueryData) \<Rightarrow> (string \<rightharpoonup> QueryData)" where
  "scan_query_rows ts [] queries = queries"
| "scan_query_rows ts (Inl err # rows) queries = scan_query_rows ts rows queries"
| "scan_query_rows ts (Inr data # rows) queries =
     scan_query_rows ts rows (queries(QueryID data \<mapsto> data \<lparr> QueryTimestamp := ts \<rparr>))"

definition pg_collectSnapshot :: "pg_Collector \<Rightarrow> pg_DB \<Rightarrow> Time \<Rightarrow> error + pg_Snapshot" where
  "pg_collectSnapshot c db now =
     (case has_extension db of
        Inl err \<Rightarrow> Inl (Errorf ''failed to check for pg_stat_statements extension'' err)
      | Inr hasExtension \<Rightarrow>
          if \<not> hasExtension
          then Inl (Err ''pg_stat_statements extension is not installed'')
          else
            (case statements_query db of
               Inl err \<Rightarrow> Inl (Errorf ''failed to query pg_stat_statements'' err)
             | Inr rows \<Rightarrow>
                 (let snapshot = \<lparr> Queries = scan_query_rows now rows Map.empty,
                                    PGTimestamp = now,
                                    PGInstanceID = pg_instanceID c \<rparr>
                  in case statements_rows_err db of
                       Some err \<Rightarrow> Inl (Errorf ''error iterating pg_stat_statements rows'' err)
                     | None \<Rightarrow> Inr snapshot)))"

definition pg_Collect ::
  "pg_Collector \<Rightarrow> pg_DB \<Rightarrow> Time \<Rightarrow> (nat \<Rightarrow> Time) \<Rightarrow> string list \<Rightarrow> pg_SnapshotStore
     \<Rightarrow> (Logs \<times> error option) \<times> pg_SnapshotStore" where
  "pg_Collect c db now clock ks store =
     (case pg_collectSnapshot c db now of
        Inl err \<Rightarrow> (([], Some err), store)
      | Inr snapshot \<Rightarrow>
          (let prevSnapshot = pg_GetSnapshot store (pg_instanceID c);
               store' = pg_StoreSnapshot store (pg_instanceID c) (Some snapshot)
           in case prevSnapshot of
                None \<Rightarrow> (([], None), store')
              | Some _ \<Rightarrow>
                  (let deltas = pg_CalculateDeltas ks prevSnapshot (Some snapshot);
                       logs = pg_deltaToLogs c clock deltas
                   in ((logs, None), store'))))"

section \<open>Package adaptive: the MySQL load probe\<close>

text \<open>\<^verbatim>\<open>float64(n)\<close> for an integer \<open>n\<close>.\<close>

definition float64_of :: "int64 \<Rightarrow> float64" where
  "float64_of n = real_of_int (sint n)"

record MySQLMetrics =
  ThreadsRunning :: int64
  ThreadsConnected :: int64
  Questions :: int64
  SlowQueries :: int64
  InnodbRowLockTime :: int64
  Uptime :: int64
  MetricsTimestamp :: Time

record MySQLMetricsDiff =
  DiffThreadsRunning :: int64
  DiffThreadsConnected :: int64
  QuestionsDiff :: int64
  SlowQueriesDiff :: int64
  LockTimeDiff :: int64
  DiffTimestamp :: Time
  ElapsedSeconds :: float64
  QPS :: float64
  SlowQPS :: float64

text \<open>\<^verbatim>\<open>(m *MySQLMetrics) CalculateLoad\<close>.\<close>

definition Metrics_CalculateLoad :: "MySQLMetrics \<Rightarrow> float64" where
  "Metrics_CalculateLoad m =
     (if sint (ThreadsConnected m) \<le> 0 then 0
      else
        (let ratio = float64_of (ThreadsRunning m) / float64_of (ThreadsConnected m)
         in if ratio > 1 then 1 else ratio))"

text \<open>
  \<^verbatim>\<open>(m *MySQLMetrics) CalculateDiff(previous)\<close>; \<open>None\<close> is the nil pointer. The fields the
  first branch does not set keep Go's zero value.
\<close>

definition CalculateDiff :: "MySQLMetrics \<Rightarrow> MySQLMetrics option \<Rightarrow> MySQLMetricsDiff" where
  "CalculateDiff m previous =
     (case previous of
        None \<Rightarrow>
          \<lparr> DiffThreadsRunning = ThreadsRunning m,
            DiffThreadsConnected = ThreadsConnected m,
            QuestionsDiff = 0,
            SlowQueriesDiff = 0,
            LockTimeDiff = 0,
            DiffTimestamp = MetricsTimestamp m,
            ElapsedSeconds = 0,
            QPS = 0,
            SlowQPS = 0 \<rparr>
      | Some prv \<Rightarrow>
          (let elapsed0 = Seconds (Time_Sub (MetricsTimestamp m) (MetricsTimestamp prv));
               elapsed = (if elapsed0 \<le> 0 then 1 else elapsed0)
           in \<lparr> DiffThreadsRunning = ThreadsRunning m,
                DiffThreadsConnected = ThreadsConnected m,
                QuestionsDiff = Questions m - Questions prv,
                SlowQueriesDiff = SlowQueries m - SlowQueries prv,
                LockTimeDiff = InnodbRowLockTime m - InnodbRowLockTime prv,
                DiffTimestamp = MetricsTimestamp m,
                ElapsedSeconds = elapsed,
                QPS = float64_of (Questions m - Questions prv) / elapsed,
                SlowQPS = float64_of (SlowQueries m - SlowQueries prv) / elapsed \<rparr>))"

text \<open>\<^verbatim>\<open>(d *MySQLMetricsDiff) CalculateLoad\<close>.\<close>

definition Diff_CalculateLoad :: "MySQLMetricsDiff \<Rightarrow> float64" where
  "Diff_CalculateLoad d =
     (if sint (DiffThreadsConnected d) \<le> 0 then 0
      else
        (let threadRatio0 = float64_of (DiffThreadsRunning d) / float64_of (DiffThreadsConnected d);
             threadRatio = (if threadRatio0 > 1 then 1 else threadRatio0);
             slowQueryRatio =
               (if 0 < sint (QuestionsDiff d)
                then (let r = float64_of (SlowQueriesDiff d) / float64_of (QuestionsDiff d)
                      in if r > 1 then 1 else r)
                else 0);
             total = threadRatio * 0.7 + slowQueryRatio * 0.3
         in total))"

text \<open>
  The value that \<^verbatim>\<open>strconv.ParseInt(s, 10, 64)\<close> returns, and \<^verbatim>\<open>strconv.Atoi(s)\<close> on a
  64-bit platform; the source drops the error. A syntax error gives 0, a range error the
  nearest bound. \<open>ParseUint_loop\<close> is the digit loop of \<^verbatim>\<open>ParseUint\<close>: \<open>None\<close> for a syntax
  error, the maximal value as soon as the number overflows 64 bits.
\<close>

definition is_digit :: "char \<Rightarrow> bool" where
  "is_digit ch \<longleftrightarrow> (48::nat) \<le> of_char ch \<and> (of_char ch :: nat) \<le> 57"

fun ParseUint_loop :: "nat \<Rightarrow> string \<Rightarrow> nat option" where
  "ParseUint_loop n [] = Some n"
| "ParseUint_loop n (ch # s) =
     (if \<not> is_digit ch then None
      else if n \<ge> (2 ^ 64 - 1) div 10 + 1 then Some (2 ^ 64 - 1)
      else
        (let n1 = n * 10 + (of_char ch - 48)
         in if n1 > 2 ^ 64 - 1 then Some (2 ^ 64 - 1) else ParseUint_loop n1 s))"

definition ParseInt :: "string \<Rightarrow> int64" where
  "ParseInt s =
     (if s = [] then 0
      else
        (let neg = (hd s = CHR ''-'');
             digits = (if hd s = CHR ''+'' \<or> hd s = CHR ''-'' then tl s else s)
         in if digits = [] then 0
            else
              (case ParseUint_loop 0 digits of
                 None \<Rightarrow> 0
               | Some un \<Rightarrow>
                   if \<not> neg \<and> un \<ge> 2 ^ 63 then of_int (2 ^ 63 - 1)
                   else if neg \<and> un > 2 ^ 63 then of_int (- (2 ^ 63))
                   else if neg then - of_nat un
                   else of_nat un)))"

definition Atoi :: "string \<Rightarrow> int64" where
  "Atoi s = ParseInt s"

text \<open>
  What the database answers during one \<^verbatim>\<open>collectMySQLMetrics\<close>: the result set of the
  status query (a row is a scan error or the pair of name and value) and \<^verbatim>\<open>rows.Err()\<close>.
\<close>

record status_DB =
  status_query :: "error + (error + string \<times> string) list"
  status_rows_err :: "error option"

fun scan_status_rows :: "(error + string \<times> string) list \<Rightarrow> MySQLMetrics \<Rightarrow> error + MySQLMetrics" where
  "scan_status_rows [] metrics = Inr metrics"
| "scan_status_rows (Inl err # rows) metrics = Inl (Errorf ''error scanning row'' err)"
| "scan_status_rows (Inr (name, valueStr) # rows) metrics =
     scan_status_rows rows
       (if name = ''Threads_running'' then metrics \<lparr> ThreadsRunning := Atoi valueStr \<rparr>
        else if name = ''Threads_connected'' then metrics \<lparr> ThreadsConnected := Atoi valueStr \<rparr>
        else if name = ''Questions'' then metrics \<lparr> Questions := ParseInt valueStr \<rparr>
        else if name = ''Slow_queries'' then metrics \<lparr> SlowQueries := ParseInt valueStr \<rparr>
        else if name = ''Innodb_row_lock_time''
          then metrics \<lparr> InnodbRowLockTime := ParseInt valueStr \<rparr>
        else if name = ''Uptime'' then metrics \<lparr> Uptime := ParseInt valueStr \<rparr>
        else metrics)"

definition collectMySQLMetrics :: "status_DB \<Rightarrow> Time \<Rightarrow> error + MySQLMetrics" where
  "collectMySQLMetrics db now =
     (case status_query db of
        Inl err \<Rightarrow> Inl (Errorf ''error querying global status'' err)
      | Inr rows \<Rightarrow>
          (case scan_status_rows rows
                  \<lparr> ThreadsRunning = 0, ThreadsConnected = 0, Questions = 0, SlowQueries = 0,
                    InnodbRowLockTime = 0, Uptime = 0, MetricsTimestamp = now \<rparr> of
             Inl err \<Rightarrow> Inl err
           | Inr metrics \<Rightarrow>
               (case status_rows_err db of
                  Some err \<Rightarrow> Inl (Errorf ''error iterating rows'' err)
                | None \<Rightarrow> Inr metrics)))"

record MySQLCollector =
  lastMetrics :: "MySQLMetrics option"

definition NewMySQLCollector :: MySQLCollector where
  "NewMySQLCollector = \<lparr> lastMetrics = None \<rparr>"

text \<open>\<^verbatim>\<open>CollectMetrics\<close> returns \<^verbatim>\<open>(float64, error)\<close> and updates the collector.\<close>

definition CollectMetrics ::
  "MySQLCollector \<Rightarrow> status_DB \<Rightarrow> Time \<Rightarrow> (float64 \<times> error option) \<times> MySQLCollector" where
  "CollectMetrics c db now =
     (case collectMySQLMetrics db now of
        Inl err \<Rightarrow> ((0, Some (Errorf ''failed to collect MySQL metrics'' err)), c)
      | Inr metrics \<Rightarrow>
          (let last = lastMetrics c;
               diff = CalculateDiff metrics last;
               c' = c \<lparr> lastMetrics := Some metrics \<rparr>;
               load = Diff_CalculateLoad diff
           in ((load, None), c')))"

section \<open>Package adaptive: EMA and the adaptive governor\<close>

definition HighLoadThreshold :: float64 where
  "HighLoadThreshold = 0.7"

definition CriticalLoadThreshold :: float64 where
  "CriticalLoadThreshold = 0.9"

definition FastEMAAlpha :: float64 where
  "FastEMAAlpha = 0.3"

definition SlowEMAAlpha :: float64 where
  "SlowEMAAlpha = 0.05"

definition MinimumInterval :: Duration where
  "MinimumInterval = 500 * Millisecond"

definition MaximumInterval :: Duration where
  "MaximumInterval = 60 * Second"

definition DefaultJitterPercent :: float64 where
  "DefaultJitterPercent = 0.1"

definition StateFileName :: string where
  "StateFileName = ''governor_state.json''"

record EMA =
  alpha :: float64
  ema_value :: float64
  initValue :: bool

definition NewEMA :: "float64 \<Rightarrow> EMA" where
  "NewEMA a = \<lparr> alpha = a, ema_value = 0, initValue = False \<rparr>"

definition EMA_Update :: "EMA \<Rightarrow> float64 \<Rightarrow> EMA" where
  "EMA_Update e v =
     (if \<not> initValue e then e \<lparr> ema_value := v, initValue := True \<rparr>
      else e \<lparr> ema_value := ema_value e + alpha e * (v - ema_value e) \<rparr>)"

definition EMA_Value :: "EMA \<Rightarrow> float64" where
  "EMA_Value e = ema_value e"

definition EMA_SetValue :: "EMA \<Rightarrow> float64 \<Rightarrow> EMA" where
  "EMA_SetValue e v = e \<lparr> ema_value := v, initValue := True \<rparr>"

definition EMA_Reset :: "EMA \<Rightarrow> EMA" where
  "EMA_Reset e = e \<lparr> ema_value := 0, initValue := False \<rparr>"

record GovernorState =
  FastEMAValue :: float64
  SlowEMAValue :: float64
  Interval :: Duration
  StateTimestamp :: Time

text \<open>
  The governor. \<open>intervalChangeCb\<close> tells whether a callback is registered (not nil);
  \<open>callbackCalls\<close> records the arguments of its invocations so far, in order.
\<close>

record AdaptiveGovernor =
  fastEMA :: EMA
  slowEMA :: EMA
  baseInterval :: Duration
  currentInterval :: Duration
  jitterPercent :: float64
  stateDir :: string
  lastSnapshotTime :: Time
  intervalChangeCb :: bool
  callbackCalls :: "Duration list"

text \<open>
  The file system and the library calls of the governor. A file has its bytes and its
  modification time; directories are not represented. \<open>OS\<close> gives the outcome of each
  system call (\<open>None\<close>: no error; \<open>Stat_err\<close> is for errors other than a missing file) and
  the behaviour of \<^verbatim>\<open>json.Marshal\<close> and \<^verbatim>\<open>json.Unmarshal\<close> on \<^verbatim>\<open>GovernorState\<close>.
\<close>

record File =
  contents :: string
  ModTime :: Time

type_synonym FileSystem = "string \<rightharpoonup> File"

record OS =
  MkdirAll_err :: "string \<Rightarrow> error option"
  WriteFile_err :: "string \<Rightarrow> error option"
  Rename_err :: "string \<Rightarrow> string \<Rightarrow> error option"
  Remove_err :: "string \<Rightarrow> error option"
  Stat_err :: "string \<Rightarrow> error option"
  ReadFile_err :: "string \<Rightarrow> error option"
  json_Marshal :: "GovernorState \<Rightarrow> error + string"
  json_Unmarshal :: "string \<Rightarrow> error + GovernorState"

text \<open>\<^verbatim>\<open>filepath.Join(dir, name)\<close> for a clean, non-empty \<open>dir\<close>.\<close>

definition filepath_Join :: "string \<Rightarrow> string \<Rightarrow> string" where
  "filepath_Join dir name = dir @ ''/'' @ name"

text \<open>
  \<^verbatim>\<open>saveState\<close>: the file system after the call. \<open>now\<close> is the reading of \<^verbatim>\<open>time.Now()\<close>,
  which also becomes the modification time of the file written.
\<close>

definition saveState :: "OS \<Rightarrow> Time \<Rightarrow> AdaptiveGovernor \<Rightarrow> FileSystem \<Rightarrow> FileSystem" where
  "saveState os now g fs =
     (if stateDir g = [] then fs
      else
        (case MkdirAll_err os (stateDir g) of
           Some err \<Rightarrow> fs
         | None \<Rightarrow>
             (let state = \<lparr> FastEMAValue = EMA_Value (fastEMA g),
                             SlowEMAValue = EMA_Value (slowEMA g),
                             Interval = currentInterval g,
                             StateTimestamp = now \<rparr>
              in case json_Marshal os state of
                   Inl err \<Rightarrow> fs
                 | Inr data \<Rightarrow>
                     (let statePath = filepath_Join (stateDir g) StateFileName;
                          tempPath = statePath @ ''.tmp''
                      in case WriteFile_err os tempPath of
                           Some err \<Rightarrow> fs
                         | None \<Rightarrow>
                             (let fs1 = fs(tempPath \<mapsto> \<lparr> contents = data, ModTime = now \<rparr>)
                              in case Rename_err os tempPath statePath of
                                   Some err \<Rightarrow> fs1
                                 | None \<Rightarrow> (fs1(statePath := fs1 tempPath))(tempPath := None))))))"

text \<open>\<^verbatim>\<open>restoreState\<close>: the governor after the call.\<close>

definition restoreState :: "OS \<Rightarrow> Time \<Rightarrow> AdaptiveGovernor \<Rightarrow> FileSystem \<Rightarrow> AdaptiveGovernor" where
  "restoreState os now g fs =
     (if stateDir g = [] then g
      else
        (let statePath = filepath_Join (stateDir g) StateFileName
         in case Stat_err os statePath of
              Some err \<Rightarrow> g
            | None \<Rightarrow>
                (case fs statePath of
                   None \<Rightarrow> g
                 | Some info \<Rightarrow>
                     if Time_Sub now (ModTime info) > Hour then g
                     else
                       (case ReadFile_err os statePath of
                          Some err \<Rightarrow> g
                        | None \<Rightarrow>
                            (case json_Unmarshal os (contents info) of
                               Inl err \<Rightarrow> g
                             | Inr state \<Rightarrow>
                                 g \<lparr> fastEMA := EMA_SetValue (fastEMA g) (FastEMAValue state),
                                     slowEMA := EMA_SetValue (slowEMA g) (SlowEMAValue state),
                                     currentInterval := Interval state,
                                     lastSnapshotTime := StateTimestamp state \<rparr>)))))"

definition NewAdaptiveGovernor ::
  "OS \<Rightarrow> Time \<Rightarrow> FileSystem \<Rightarrow> Duration \<Rightarrow> string \<Rightarrow> AdaptiveGovernor" where
  "NewAdaptiveGovernor os now fs baseInterval0 stateDir0 =
     (let base = (if baseInterval0 < MinimumInterval then MinimumInterval else baseInterval0);
          g = \<lparr> fastEMA = NewEMA FastEMAAlpha,
                slowEMA = NewEMA SlowEMAAlpha,
                baseInterval = base,
                currentInterval = base,
                jitterPercent = DefaultJitterPercent,
                stateDir = stateDir0,
                lastSnapshotTime = zero_Time,
                intervalChangeCb = False,
                callbackCalls = [] \<rparr>
      in restoreState os now g fs)"

definition WithJitterPercent :: "AdaptiveGovernor \<Rightarrow> float64 \<Rightarrow> AdaptiveGovernor" where
  "WithJitterPercent g percent =
     g \<lparr> jitterPercent := (if percent < 0 then 0 else if percent > 0.5 then 0.5 else percent) \<rparr>"

definition WithIntervalChangeCallback :: "AdaptiveGovernor \<Rightarrow> AdaptiveGovernor" where
  "WithIntervalChangeCallback g = g \<lparr> intervalChangeCb := True \<rparr>"

text \<open>
  \<^verbatim>\<open>time.Duration(x)\<close> for a \<^verbatim>\<open>float64\<close> \<open>x\<close>: the fraction is discarded. This is Go's
  result when the truncated value lies in the range of \<^verbatim>\<open>int64\<close>; outside that range Go
  leaves the result to the implementation, and the function below does not describe it.
  What is proved about the interval computed with it assumes a base interval for which the
  converted value is in range.
\<close>

definition Duration_of_float :: "float64 \<Rightarrow> Duration" where
  "Duration_of_float x = (if 0 \<le> x then \<lfloor>x\<rfloor> else \<lceil>x\<rceil>)"

text \<open>
  The test \<^verbatim>\<open>math.Abs(float64(newInterval-currentInterval))/float64(currentInterval) > 0.1\<close>
  of \<^verbatim>\<open>adjustInterval\<close>. For a zero \<open>currentInterval\<close> the IEEE quotient is \<open>+Inf\<close> when the
  intervals differ (the test holds) and NaN when they are equal (it fails).
\<close>

definition significant_change :: "Duration \<Rightarrow> Duration \<Rightarrow> bool" where
  "significant_change newInterval cur =
     (if cur = 0 then newInterval \<noteq> cur
      else \<bar>real_of_int (newInterval - cur)\<bar> / real_of_int cur > 0.1)"

text \<open>The interval \<^verbatim>\<open>adjustInterval\<close> computes into \<^verbatim>\<open>newInterval\<close>.\<close>

definition new_interval :: "Duration \<Rightarrow> float64 \<Rightarrow> Duration" where
  "new_interval base fastValue =
     (if fastValue > CriticalLoadThreshold then MaximumInterval
      else if fastValue > HighLoadThreshold then
        (let loadRatio = fastValue / HighLoadThreshold;
             multiplier = 2 powr (loadRatio - 1);
             newInterval = Duration_of_float (real_of_int base * multiplier)
         in if newInterval > MaximumInterval then MaximumInterval else newInterval)
      else base)"

definition adjustInterval :: "AdaptiveGovernor \<Rightarrow> AdaptiveGovernor" where
  "adjustInterval g =
     (let fastValue = EMA_Value (fastEMA g);
          cur = currentInterval g;
          newInterval = new_interval (baseInterval g) fastValue
      in if significant_change newInterval cur
         then g \<lparr> currentInterval := newInterval,
                   callbackCalls :=
                     (if intervalChangeCb g then callbackCalls g @ [newInterval]
                      else callbackCalls g) \<rparr>
         else g)"

text \<open>
  \<^verbatim>\<open>ProcessLoadMetrics(load)\<close>: the governor and the file system after the call; \<open>now\<close> is
  the reading of \<^verbatim>\<open>time.Now()\<close>.
\<close>

definition ProcessLoadMetrics ::
  "OS \<Rightarrow> Time \<Rightarrow> float64 \<Rightarrow> AdaptiveGovernor \<Rightarrow> FileSystem \<Rightarrow> AdaptiveGovernor \<times> FileSystem" where
  "ProcessLoadMetrics os now load0 g fs =
     (let load = (if load0 < 0 then 0 else if load0 > 1 then 1 else load0);
          g1 = g \<lparr> fastEMA := EMA_Update (fastEMA g) load,
                    slowEMA := EMA_Update (slowEMA g) load \<rparr>;
          g2 = adjustInterval g1
      in if Time_Sub now (lastSnapshotTime g2) > Minute
         then (g2 \<lparr> lastSnapshotTime := now \<rparr>, saveState os now g2 fs)
         else (g2, fs))"

text \<open>
  \<^verbatim>\<open>GetCurrentInterval\<close>; \<open>rnd\<close> is the value of \<^verbatim>\<open>rand.Float64()\<close>, in \<open>[0, 1)\<close>.
\<close>

definition GetCurrentInterval :: "float64 \<Rightarrow> AdaptiveGovernor \<Rightarrow> Duration" where
  "GetCurrentInterval rnd g =
     (let interval = currentInterval g
      in if jitterPercent g > 0
         then
           (let jitterRange = real_of_int interval * jitterPercent g;
                jitterAmount = Duration_of_float (jitterRange * (0.5 - rnd));
                interval' = interval + jitterAmount
            in if interval' < MinimumInterval then MinimumInterval else interval')
         else interval)"

definition GetBaseInterval :: "AdaptiveGovernor \<Rightarrow> Duration" where
  "GetBaseInterval g = baseInterval g"

definition GetRawInterval :: "AdaptiveGovernor \<Rightarrow> Duration" where
  "GetRawInterval g = currentInterval g"

text \<open>\<^verbatim>\<open>Reset\<close>: the governor and the file system after the call.\<close>

definition Reset :: "OS \<Rightarrow> AdaptiveGovernor \<Rightarrow> FileSystem \<Rightarrow> AdaptiveGovernor \<times> FileSystem" where
  "Reset os g fs =
     (let g1 = g \<lparr> fastEMA := EMA_Reset (fastEMA g),
                    slowEMA := EMA_Reset (slowEMA g),
                    currentInterval := baseInterval g,
                    lastSnapshotTime := zero_Time \<rparr>;
          fs' = (if stateDir g \<noteq> []
                 then (let statePath = filepath_Join (stateDir g) StateFileName
                       in case Remove_err os statePath of
                            Some err \<Rightarrow> fs
                          | None \<Rightarrow> fs(statePath := None))
                 else fs);
          g2 = (if intervalChangeCb g1
                then g1 \<lparr> callbackCalls := callbackCalls g1 @ [baseInterval g1] \<rparr>
                else g1)
      in (g2, fs'))"

section \<open>Counters of a row, deltas of a record\<close>

text \<open>
  The counters of a MySQL digest row and the deltas of a delta record, in the same order;
  for PostgreSQL the integer and the fractional counters separately.
\<close>

definition counters_of :: "DigestData \<Rightarrow> int64 list" where
  "counters_of d =
     [CountStar d, SumTimerWait d, SumLockTime d, SumErrors d, SumWarnings d, SumRowsAffected d,
      SumRowsSent d, SumRowsExamined d, SumCreatedTmpTables d, SumCreatedTmpDiskTables d,
      SumSortRows d, SumNoIndexUsed d, SumNoGoodIndexUsed d]"

definition deltas_of :: "DeltaResult \<Rightarrow> int64 list" where
  "deltas_of r =
     [DeltaCountStar r, DeltaSumTimerWait r, DeltaSumLockTime r, DeltaSumErrors r,
      DeltaSumWarnings r, DeltaSumRowsAffected r, DeltaSumRowsSent r, DeltaSumRowsExamined r,
      DeltaSumCreatedTmpTables r, DeltaSumCreatedTmpDiskTables r, DeltaSumSortRows r,
      DeltaSumNoIndexUsed r, DeltaSumNoGoodIndexUsed r]"

definition pg_int_counters_of :: "QueryData \<Rightarrow> int64 list" where
  "pg_int_counters_of d =
     [Calls d, Rows d, SharedBlksHit d, SharedBlksRead d, SharedBlksDirtied d,
      SharedBlksWritten d, LocalBlksHit d, LocalBlksRead d, LocalBlksDirtied d,
      LocalBlksWritten d, TempBlksRead d, TempBlksWritten d]"

definition pg_int_deltas_of :: "pg_DeltaResult \<Rightarrow> int64 list" where
  "pg_int_deltas_of r =
     [DeltaCalls r, DeltaRows r, DeltaSharedBlksHit r, DeltaSharedBlksRead r,
      DeltaSharedBlksDirtied r, DeltaSharedBlksWritten r, DeltaLocalBlksHit r,
      DeltaLocalBlksRead r, DeltaLocalBlksDirtied r, DeltaLocalBlksWritten r,
      DeltaTempBlksRead r, DeltaTempBlksWritten r]"

definition pg_float_counters_of :: "QueryData \<Rightarrow> float64 list" where
  "pg_float_counters_of d = [TotalPlanTime d, TotalExecTime d, BlkReadTime d, BlkWriteTime d]"

definition pg_float_deltas_of :: "pg_DeltaResult \<Rightarrow> float64 list" where
  "pg_float_deltas_of r =
     [DeltaTotalPlanTime r, DeltaTotalExecTime r, DeltaBlkReadTime r, DeltaBlkWriteTime r]"

section \<open>Sample inputs\<close>

text \<open>
  A digest row with the given execution count and timer wait (the other counters zero), a
  snapshot taken at \<open>ts\<close> with the given rows, and the same for PostgreSQL with the
  execution count and the execution time.
\<close>

definition sample_digest :: "string \<Rightarrow> int64 \<Rightarrow> int64 \<Rightarrow> DigestData" where
  "sample_digest d calls timer =
     \<lparr> Digest = d, SchemaName = ''shop'', DigestText = ''SELECT ?'', CountStar = calls,
       SumTimerWait = timer, SumLockTime = 0, SumErrors = 0, SumWarnings = 0,
       SumRowsAffected = 0, SumRowsSent = 0, SumRowsExamined = 0, SumCreatedTmpTables = 0,
       SumCreatedTmpDiskTables = 0, SumSortRows = 0, SumNoIndexUsed = 0,
       SumNoGoodIndexUsed = 0, DigestTimestamp = 0 \<rparr>"

definition sample_snapshot :: "Time \<Rightarrow> (string \<times> DigestData) list \<Rightarrow> Snapshot" where
  "sample_snapshot ts rows =
     \<lparr> Digests = map_of rows, Timestamp = ts, InstanceID = ''mysql://db:3306/shop'' \<rparr>"

definition sample_query :: "string \<Rightarrow> int64 \<Rightarrow> float64 \<Rightarrow> QueryData" where
  "sample_query q calls exec_time =
     \<lparr> QueryID = q, UserID = ''10'', DBID = ''5'', Query = ''SELECT $1'', Calls = calls,
       TotalPlanTime = 0, TotalExecTime = exec_time, Rows = 0, SharedBlksHit = 0,
       SharedBlksRead = 0, SharedBlksDirtied = 0, SharedBlksWritten = 0, LocalBlksHit = 0,
       LocalBlksRead = 0, LocalBlksDirtied = 0, LocalBlksWritten = 0, TempBlksRead = 0,
       TempBlksWritten = 0, BlkReadTime = 0, BlkWriteTime = 0, QueryTimestamp = 0 \<rparr>"

definition pg_sample_snapshot :: "Time \<Rightarrow> (string \<times> QueryData) list \<Rightarrow> pg_Snapshot" where
  "pg_sample_snapshot ts rows =
     \<lparr> Queries = map_of rows, PGTimestamp = ts, PGInstanceID = ''postgresql://db:5432/shop'' \<rparr>"

text \<open>Delta records with the given execution count delta, as a caller can pass them.\<close>

definition sample_delta :: "string \<Rightarrow> int64 \<Rightarrow> DeltaResult" where
  "sample_delta d calls =
     \<lparr> DeltaDigest = d, DeltaSchemaName = ''shop'', DeltaDigestText = ''SELECT ?'',
       TimePeriodSecs = 10, DeltaCountStar = calls, DeltaSumTimerWait = 0, DeltaSumLockTime = 0,
       DeltaSumErrors = 0, DeltaSumWarnings = 0, DeltaSumRowsAffected = 0, DeltaSumRowsSent = 0,
       DeltaSumRowsExamined = 0, DeltaSumCreatedTmpTables = 0, DeltaSumCreatedTmpDiskTables = 0,
       DeltaSumSortRows = 0, DeltaSumNoIndexUsed = 0, DeltaSumNoGoodIndexUsed = 0 \<rparr>"

definition pg_sample_delta :: "string \<Rightarrow> int64 \<Rightarrow> pg_DeltaResult" where
  "pg_sample_delta q calls =
     \<lparr> DeltaQueryID = q, DeltaUserID = ''10'', DeltaDBID = ''5'', DeltaQuery = ''SELECT $1'',
       PGTimePeriodSecs = 10, DeltaCalls = calls, DeltaTotalPlanTime = 0, DeltaTotalExecTime = 0,
       DeltaRows = 0, DeltaSharedBlksHit = 0, DeltaSharedBlksRead = 0,
       DeltaSharedBlksDirtied = 0, DeltaSharedBlksWritten = 0, DeltaLocalBlksHit = 0,
       DeltaLocalBlksRead = 0, DeltaLocalBlksDirtied = 0, DeltaLocalBlksWritten = 0,
       DeltaTempBlksRead = 0, DeltaTempBlksWritten = 0, DeltaBlkReadTime = 0,
       DeltaBlkWriteTime = 0 \<rparr>"

definition sample_collector :: Collector where
  "sample_collector = \<lparr> dsn = ''qan:secret@tcp(db:3306)/shop'', instanceID = ''mysql://db:3306/shop'' \<rparr>"

definition pg_sample_collector :: pg_Collector where
  "pg_sample_collector =
     \<lparr> connStr = ''postgres://qan:secret@db:5432/shop?sslmode=disable'',
       pg_instanceID = ''postgresql://db:5432/shop'' \<rparr>"

text \<open>A MySQL server with \<^verbatim>\<open>performance_schema\<close> off, a PostgreSQL server without the extension.\<close>

definition mysql_db_off :: mysql_DB where
  "mysql_db_off =
     \<lparr> performance_schema_var = Inr ''OFF'', statements_digest_enabled = Inr ''YES'',
       digest_query = Inr [], digest_rows_err = None \<rparr>"

definition pg_db_no_extension :: pg_DB where
  "pg_db_no_extension =
     \<lparr> has_extension = Inr False, statements_query = Inr [], statements_rows_err = None \<rparr>"

text \<open>
  Two snapshots ten seconds apart with one shared statement whose execution count advanced
  from 100 to 103 while its time counter fell (a reset).
\<close>

definition reset_prev :: Snapshot where
  "reset_prev = sample_snapshot 0 [(''A'', sample_digest ''A'' 100 5000)]"

definition reset_curr :: Snapshot where
  "reset_curr = sample_snapshot 10000000000 [(''A'', sample_digest ''A'' 103 120)]"

definition pg_reset_prev :: pg_Snapshot where
  "pg_reset_prev = pg_sample_snapshot 0 [(''A'', sample_query ''A'' 100 (10001 / 2))]"

definition pg_reset_curr :: pg_Snapshot where
  "pg_reset_curr = pg_sample_snapshot 10000000000 [(''A'', sample_query ''A'' 103 (481 / 4))]"

text \<open>The counters of a row are all non-negative.\<close>

definition nonneg_counters :: "DigestData \<Rightarrow> bool" where
  "nonneg_counters d \<longleftrightarrow> (\<forall>v \<in> set (counters_of d). 0 \<le> sint v)"

definition pg_nonneg_counters :: "QueryData \<Rightarrow> bool" where
  "pg_nonneg_counters d \<longleftrightarrow>
     (\<forall>v \<in> set (pg_int_counters_of d). 0 \<le> sint v) \<and>
     (\<forall>x \<in> set (pg_float_counters_of d). 0 \<le> x)"

text \<open>
  An empty earlier snapshot, and later snapshots with one statement that is new: one that
  was never executed, one with a negative time counter, and one taken at the very instant of
  the earlier snapshot or before it.
\<close>

definition empty_prev :: Snapshot where
  "empty_prev = sample_snapshot 10000000000 []"

definition idle_curr :: Snapshot where
  "idle_curr = sample_snapshot 20000000000 [(''B'', sample_digest ''B'' 0 0)]"

definition negative_curr :: Snapshot where
  "negative_curr = sample_snapshot 20000000000 [(''B'', sample_digest ''B'' 5 (- 1))]"

definition same_instant_curr :: Snapshot where
  "same_instant_curr = sample_snapshot 10000000000 [(''B'', sample_digest ''B'' 5 250)]"

definition earlier_curr :: Snapshot where
  "earlier_curr = sample_snapshot 5000000000 [(''B'', sample_digest ''B'' 5 250)]"

definition pg_empty_prev :: pg_Snapshot where
  "pg_empty_prev = pg_sample_snapshot 10000000000 []"

definition pg_idle_curr :: pg_Snapshot where
  "pg_idle_curr = pg_sample_snapshot 20000000000 [(''B'', sample_query ''B'' 0 0)]"

definition pg_negative_curr :: pg_Snapshot where
  "pg_negative_curr = pg_sample_snapshot 20000000000 [(''B'', sample_query ''B'' 5 (- 1))]"

definition pg_same_instant_curr :: pg_Snapshot where
  "pg_same_instant_curr = pg_sample_snapshot 10000000000 [(''B'', sample_query ''B'' 5 250)]"

definition pg_earlier_curr :: pg_Snapshot where
  "pg_earlier_curr = pg_sample_snapshot 5000000000 [(''B'', sample_query ''B'' 5 250)]"

text \<open>
  A status result set of a server with two connected threads, one of them running, read by
  a probe that has no earlier reading.
\<close>

definition sample_status_db :: status_DB where
  "sample_status_db =
     \<lparr> status_query = Inr [Inr (''Threads_connected'', ''2''), Inr (''Threads_running'', ''1''),
                            Inr (''Questions'', ''1500''), Inr (''Uptime'', ''86400'')],
       status_rows_err = None \<rparr>"

text \<open>
  The state record \<^verbatim>\<open>saveState\<close> serialises for a governor at time \<open>now\<close>, and the path of
  the state file.
\<close>

definition state_of :: "Time \<Rightarrow> AdaptiveGovernor \<Rightarrow> GovernorState" where
  "state_of now g =
     \<lparr> FastEMAValue = EMA_Value (fastEMA g), SlowEMAValue = EMA_Value (slowEMA g),
       Interval = currentInterval g, StateTimestamp = now \<rparr>"

definition state_path :: "string \<Rightarrow> string" where
  "state_path dir = filepath_Join dir StateFileName"

text \<open>
  \<open>save_succeeds os now g\<close>: the state directory is configured, no system call of
  \<^verbatim>\<open>saveState\<close> fails and \<^verbatim>\<open>json.Marshal\<close> encodes the state.
  \<open>restore_reads_back os now g\<close>: \<^verbatim>\<open>os.Stat\<close> and \<^verbatim>\<open>os.ReadFile\<close> succeed on the state
  file, and \<^verbatim>\<open>json.Unmarshal\<close> decodes what \<^verbatim>\<open>json.Marshal\<close> wrote to the state that was
  encoded (the round trip of \<^verbatim>\<open>encoding/json\<close> on finite floats, integers and times).
\<close>

definition save_succeeds :: "OS \<Rightarrow> Time \<Rightarrow> AdaptiveGovernor \<Rightarrow> bool" where
  "save_succeeds os now g \<longleftrightarrow>
     stateDir g \<noteq> [] \<and>
     MkdirAll_err os (stateDir g) = None \<and>
     (\<exists>data. json_Marshal os (state_of now g) = Inr data) \<and>
     WriteFile_err os (state_path (stateDir g) @ ''.tmp'') = None \<and>
     Rename_err os (state_path (stateDir g) @ ''.tmp'') (state_path (stateDir g)) = None"

definition restore_reads_back :: "OS \<Rightarrow> Time \<Rightarrow> AdaptiveGovernor \<Rightarrow> bool" where
  "restore_reads_back os now g \<longleftrightarrow>
     Stat_err os (state_path (stateDir g)) = None \<and>
     ReadFile_err os (state_path (stateDir g)) = None \<and>
     (\<forall>data. json_Marshal os (state_of now g) = Inr data \<longrightarrow>
        json_Unmarshal os data = Inr (state_of now g))"

text \<open>
  A machine on which no system call fails, with a codec that encodes the state \<open>st\<close> and
  decodes it again. A governor with base interval one second, a registered callback and no
  state directory; and one with a state directory, after a load of 0.8.
\<close>

definition sample_os :: "GovernorState \<Rightarrow> OS" where
  "sample_os st =
     \<lparr> MkdirAll_err = (\<lambda>p. None),
       WriteFile_err = (\<lambda>p. None),
       Rename_err = (\<lambda>p q. None),
       Remove_err = (\<lambda>p. None),
       Stat_err = (\<lambda>p. None),
       ReadFile_err = (\<lambda>p. None),
       json_Marshal = (\<lambda>s. if s = st then Inr ''{state}'' else Inl (Err ''unsupported value'')),
       json_Unmarshal =
         (\<lambda>d. if d = ''{state}'' then Inr st else Inl (Err ''invalid character'')) \<rparr>"

definition cold_state :: GovernorState where
  "cold_state = \<lparr> FastEMAValue = 0, SlowEMAValue = 0, Interval = 0, StateTimestamp = 0 \<rparr>"

definition sample_governor :: AdaptiveGovernor where
  "sample_governor =
     WithIntervalChangeCallback (NewAdaptiveGovernor (sample_os cold_state) 0 Map.empty Second [])"

definition saved_governor :: AdaptiveGovernor where
  "saved_governor =
     \<lparr> fastEMA = \<lparr> alpha = FastEMAAlpha, ema_value = 4 / 5, initValue = True \<rparr>,
       slowEMA = \<lparr> alpha = SlowEMAAlpha, ema_value = 1 / 2, initValue = True \<rparr>,
       baseInterval = Second,
       currentInterval = 2 * Second,
       jitterPercent = DefaultJitterPercent,
       stateDir = ''/var/otel/governor_state'',
       lastSnapshotTime = 0,
       intervalChangeCb = False,
       callbackCalls = [] \<rparr>"

section \<open>The log builder\<close>

lemma log_records_loop_set:
  "lr \<in> set (log_records_loop clock deltas records) \<Longrightarrow>
     lr \<in> set records \<or>
     (\<exists>t d. d \<in> set deltas \<and> 0 < sint (DeltaCountStar d) \<and> lr = delta_log_record t d)"
proof (induction deltas arbitrary: records)
  case Nil
  then show ?case by simp
next
  case (Cons delta deltas)
  show ?case
  proof (cases "sint (DeltaCountStar delta) \<le> 0")
    case True
    with Cons.prems have "lr \<in> set (log_records_loop clock deltas records)" by simp
    from Cons.IH [OF this] show ?thesis by auto
  next
    case False
    with Cons.prems have
      "lr \<in> set (log_records_loop clock deltas
                    (records @ [delta_log_record (clock (length records)) delta]))"
      by simp
    from Cons.IH [OF this] have
      "lr \<in> set records \<or> lr = delta_log_record (clock (length records)) delta \<or>
       (\<exists>t d. d \<in> set deltas \<and> 0 < sint (DeltaCountStar d) \<and> lr = delta_log_record t d)"
      by auto
    moreover from False have "0 < sint (DeltaCountStar delta)" by simp
    ultimately show ?thesis by (metis list.set_intros)
  qed
qed

lemma pg_log_records_loop_set:
  "lr \<in> set (pg_log_records_loop clock deltas records) \<Longrightarrow>
     lr \<in> set records \<or>
     (\<exists>t d. d \<in> set deltas \<and> 0 < sint (DeltaCalls d) \<and> lr = pg_delta_log_record t d)"
proof (induction deltas arbitrary: records)
  case Nil
  then show ?case by simp
next
  case (Cons delta deltas)
  show ?case
  proof (cases "sint (DeltaCalls delta) \<le> 0")
    case True
    with Cons.prems have "lr \<in> set (pg_log_records_loop clock deltas records)" by simp
    from Cons.IH [OF this] show ?thesis by auto
  next
    case False
    with Cons.prems have
      "lr \<in> set (pg_log_records_loop clock deltas
                    (records @ [pg_delta_log_record (clock (length records)) delta]))"
      by simp
    from Cons.IH [OF this] have
      "lr \<in> set records \<or> lr = pg_delta_log_record (clock (length records)) delta \<or>
       (\<exists>t d. d \<in> set deltas \<and> 0 < sint (DeltaCalls d) \<and> lr = pg_delta_log_record t d)"
      by auto
    moreover from False have "0 < sint (DeltaCalls delta)" by simp
    ultimately show ?thesis by (metis list.set_intros)
  qed
qed

lemma delta_log_record_calls:
  "Get (Attributes (delta_log_record t d)) ''db.query.calls.delta'' = Some (IntVal (DeltaCountStar d))"
  by (simp add: delta_log_record_def puts_def PutStr_def PutInt_def PutDouble_def Get_def)

lemma pg_delta_log_record_calls:
  "Get (Attributes (pg_delta_log_record t d)) ''db.query.calls.delta'' = Some (IntVal (DeltaCalls d))"
  by (simp add: pg_delta_log_record_def puts_def PutStr_def PutInt_def PutDouble_def Get_def)

lemma all_log_records_deltaToLogs:
  "all_log_records (deltaToLogs c clock deltas) = log_records_loop clock deltas []"
  by (cases deltas) (simp_all add: all_log_records_def deltaToLogs_def)

lemma all_log_records_pg_deltaToLogs:
  "all_log_records (pg_deltaToLogs c clock deltas) = pg_log_records_loop clock deltas []"
  by (cases deltas) (simp_all add: all_log_records_def pg_deltaToLogs_def)

lemma mysql_logged_positive:
  assumes "lr \<in> set (all_log_records (deltaToLogs c clock deltas))"
  shows "\<exists>v. Get (Attributes lr) ''db.query.calls.delta'' = Some (IntVal v) \<and> 0 < sint v"
proof -
  from assms have "lr \<in> set (log_records_loop clock deltas [])"
    by (simp add: all_log_records_deltaToLogs)
  from log_records_loop_set [OF this] obtain t d
    where "0 < sint (DeltaCountStar d)" and "lr = delta_log_record t d" by auto
  then show ?thesis by (auto simp: delta_log_record_calls)
qed

lemma pg_logged_positive:
  assumes "lr \<in> set (all_log_records (pg_deltaToLogs c clock deltas))"
  shows "\<exists>v. Get (Attributes lr) ''db.query.calls.delta'' = Some (IntVal v) \<and> 0 < sint v"
proof -
  from assms have "lr \<in> set (pg_log_records_loop clock deltas [])"
    by (simp add: all_log_records_pg_deltaToLogs)
  from pg_log_records_loop_set [OF this] obtain t d
    where "0 < sint (DeltaCalls d)" and "lr = pg_delta_log_record t d" by auto
  then show ?thesis by (auto simp: pg_delta_log_record_calls)
qed

text \<open>
  C10. Whatever delta results \<^verbatim>\<open>deltaToLogs\<close> is given (also results with a zero or negative
  calls delta), every log record of the batch it builds carries the attribute
  \<^verbatim>\<open>db.query.calls.delta\<close> with a strictly positive integer value; this holds for the MySQL
  and for the PostgreSQL log builder.
\<close>

theorem deltaToLogs_calls_delta_positive:
  "(\<forall>lr \<in> set (all_log_records (deltaToLogs c clock deltas)).
      \<exists>v. Get (Attributes lr) ''db.query.calls.delta'' = Some (IntVal v) \<and> 0 < sint v) \<and>
   (\<forall>lr \<in> set (all_log_records (pg_deltaToLogs pc pclock pdeltas)).
      \<exists>v. Get (Attributes lr) ''db.query.calls.delta'' = Some (IntVal v) \<and> 0 < sint v)"
  using mysql_logged_positive pg_logged_positive by blast

lemma sample_log_batch:
  "all_log_records
     (deltaToLogs sample_collector (\<lambda>n. 100)
        [sample_delta ''a'' 0, sample_delta ''b'' 2, sample_delta ''c'' (- 1)]) =
   [delta_log_record 100 (sample_delta ''b'' 2)]"
  by (simp add: all_log_records_deltaToLogs sample_delta_def)

lemma pg_sample_log_batch:
  "all_log_records
     (pg_deltaToLogs pg_sample_collector (\<lambda>n. 100)
        [pg_sample_delta ''a'' 0, pg_sample_delta ''b'' 2, pg_sample_delta ''c'' (- 1)]) =
   [pg_delta_log_record 100 (pg_sample_delta ''b'' 2)]"
  by (simp add: all_log_records_pg_deltaToLogs pg_sample_delta_def)

theorem deltaToLogs_calls_delta_positive_witness:
  "delta_log_record 100 (sample_delta ''b'' 2) \<in>
     set (all_log_records
            (deltaToLogs sample_collector (\<lambda>n. 100)
               [sample_delta ''a'' 0, sample_delta ''b'' 2, sample_delta ''c'' (- 1)])) \<and>
   (\<exists>v. Get (Attributes (delta_log_record 100 (sample_delta ''b'' 2))) ''db.query.calls.delta'' =
           Some (IntVal v) \<and> 0 < sint v) \<and>
   pg_delta_log_record 100 (pg_sample_delta ''b'' 2) \<in>
     set (all_log_records
            (pg_deltaToLogs pg_sample_collector (\<lambda>n. 100)
               [pg_sample_delta ''a'' 0, pg_sample_delta ''b'' 2, pg_sample_delta ''c'' (- 1)])) \<and>
   (\<exists>v. Get (Attributes (pg_delta_log_record 100 (pg_sample_delta ''b'' 2)))
           ''db.query.calls.delta'' = Some (IntVal v) \<and> 0 < sint v)"
  using deltaToLogs_calls_delta_positive
    [of sample_collector "\<lambda>n. 100"
        "[sample_delta ''a'' 0, sample_delta ''b'' 2, sample_delta ''c'' (- 1)]"
        pg_sample_collector "\<lambda>n. 100"
        "[pg_sample_delta ''a'' 0, pg_sample_delta ''b'' 2, pg_sample_delta ''c'' (- 1)]"]
  by (simp add: sample_log_batch pg_sample_log_batch)

section \<open>Failed collection\<close>

text \<open>
  C8. If the snapshot collection of a \<^verbatim>\<open>Collect\<close> call fails with an error, \<^verbatim>\<open>Collect\<close>
  returns exactly that error (with an empty batch) and leaves the snapshot store as it was:
  \<^verbatim>\<open>GetSnapshot\<close> gives for every instance what it gave before the call. This holds for the
  MySQL and for the PostgreSQL collector.
\<close>

theorem Collect_failure_keeps_store:
  "(collectSnapshot c db now = Inl err \<longrightarrow>
      Collect c db now clock ks store = (([], Some err), store) \<and>
      GetSnapshot (snd (Collect c db now clock ks store)) iid = GetSnapshot store iid) \<and>
   (pg_collectSnapshot pc pdb pnow = Inl perr \<longrightarrow>
      pg_Collect pc pdb pnow pclock pks pstore = (([], Some perr), pstore) \<and>
      pg_GetSnapshot (snd (pg_Collect pc pdb pnow pclock pks pstore)) piid =
        pg_GetSnapshot pstore piid)"
  by (simp add: Collect_def pg_Collect_def)

theorem Collect_failure_keeps_store_witness:
  "collectSnapshot sample_collector mysql_db_off 20 =
     Inl (Err ''performance_schema is not enabled (status: OFF)'') \<and>
   GetSnapshot
     (snd (Collect sample_collector mysql_db_off 20 (\<lambda>n. 20) []
             (StoreSnapshot NewSnapshotStore ''mysql://db:3306/shop''
                (Some (sample_snapshot 10 [])))))
     ''mysql://db:3306/shop'' = Some (sample_snapshot 10 []) \<and>
   pg_collectSnapshot pg_sample_collector pg_db_no_extension 20 =
     Inl (Err ''pg_stat_statements extension is not installed'') \<and>
   pg_GetSnapshot
     (snd (pg_Collect pg_sample_collector pg_db_no_extension 20 (\<lambda>n. 20) []
             (pg_StoreSnapshot pg_NewSnapshotStore ''postgresql://db:5432/shop''
                (Some (pg_sample_snapshot 10 [])))))
     ''postgresql://db:5432/shop'' = Some (pg_sample_snapshot 10 [])"
  using Collect_failure_keeps_store
    [of sample_collector mysql_db_off 20 "Err ''performance_schema is not enabled (status: OFF)''"
        "\<lambda>n. 20" "[]"
        "StoreSnapshot NewSnapshotStore ''mysql://db:3306/shop'' (Some (sample_snapshot 10 []))"
        "''mysql://db:3306/shop''"
        pg_sample_collector pg_db_no_extension 20
        "Err ''pg_stat_statements extension is not installed''"
        "\<lambda>n. 20" "[]"
        "pg_StoreSnapshot pg_NewSnapshotStore ''postgresql://db:5432/shop''
           (Some (pg_sample_snapshot 10 []))"
        "''postgresql://db:5432/shop''"]
  by (simp add: collectSnapshot_def pg_collectSnapshot_def mysql_db_off_def
      pg_db_no_extension_def StoreSnapshot_def GetSnapshot_def NewSnapshotStore_def
      pg_StoreSnapshot_def pg_GetSnapshot_def pg_NewSnapshotStore_def)

section \<open>The delta engine\<close>

lemma in_deltas_loop:
  "r \<in> set (deltas_loop prev cur dt ks results) \<longleftrightarrow>
     r \<in> set results \<or>
     (\<exists>k \<in> set ks. \<exists>d. Digests cur k = Some d \<and> delta_entry prev dt k d = Some r)"
  by (induction ks arbitrary: results) (auto split: option.splits)

lemma in_pg_deltas_loop:
  "r \<in> set (pg_deltas_loop prev cur dt ks results) \<longleftrightarrow>
     r \<in> set results \<or>
     (\<exists>k \<in> set ks. \<exists>d. Queries cur k = Some d \<and> pg_delta_entry prev dt k d = Some r)"
  by (induction ks arbitrary: results) (auto split: option.splits)

lemma delta_entry_digest: "delta_entry prev dt k d = Some r \<Longrightarrow> DeltaDigest r = k"
  by (auto simp: delta_entry_def Let_def split: option.splits if_splits)

lemma pg_delta_entry_queryid: "pg_delta_entry prev dt k d = Some r \<Longrightarrow> DeltaQueryID r = k"
  by (auto simp: pg_delta_entry_def Let_def split: option.splits if_splits)

lemma in_CalculateDeltas:
  "r \<in> set (CalculateDeltas ks (Some prev) (Some cur)) \<longleftrightarrow>
     (\<exists>k \<in> set ks. \<exists>d. Digests cur k = Some d \<and>
        delta_entry prev (Seconds (Time_Sub (Timestamp cur) (Timestamp prev))) k d = Some r)"
  by (simp add: CalculateDeltas_def in_deltas_loop)

lemma in_pg_CalculateDeltas:
  "r \<in> set (pg_CalculateDeltas ks (Some prev) (Some cur)) \<longleftrightarrow>
     (\<exists>k \<in> set ks. \<exists>d. Queries cur k = Some d \<and>
        pg_delta_entry prev (Seconds (Time_Sub (PGTimestamp cur) (PGTimestamp prev))) k d = Some r)"
  by (simp add: pg_CalculateDeltas_def in_pg_deltas_loop)

lemma delta_entry_new:
  assumes "Digests prev k = None" and "delta_entry prev dt k c = Some r"
  shows "deltas_of r = counters_of c"
  using assms by (auto simp: delta_entry_def deltas_of_def counters_of_def)

lemma pg_delta_entry_new:
  assumes "Queries prev k = None" and "pg_delta_entry prev dt k c = Some r"
  shows "pg_int_deltas_of r = pg_int_counters_of c"
    and "pg_float_deltas_of r = pg_float_counters_of c"
  using assms
  by (auto simp: pg_delta_entry_def pg_int_deltas_of_def pg_int_counters_of_def
      pg_float_deltas_of_def pg_float_counters_of_def)

lemma delta_entry_existing:
  assumes "Digests prev k = Some p" and "delta_entry prev dt k c = Some r"
  shows "deltas_of r =
           map2 (\<lambda>cv pv. if sint pv \<le> sint cv then cv - pv else cv) (counters_of c) (counters_of p)"
proof -
  from assms have "0 < sint (calcDelta (CountStar c) (CountStar p))"
    by (simp add: delta_entry_def calcDelta_def Let_def split: if_splits)
  with assms have r: "r = \<lparr> DeltaDigest = k,
                          DeltaSchemaName = SchemaName c,
                          DeltaDigestText = DigestText c,
                          TimePeriodSecs = dt,
                          DeltaCountStar = calcDelta (CountStar c) (CountStar p),
                          DeltaSumTimerWait = calcDelta (SumTimerWait c) (SumTimerWait p),
                          DeltaSumLockTime = calcDelta (SumLockTime c) (SumLockTime p),
                          DeltaSumErrors = calcDelta (SumErrors c) (SumErrors p),
                          DeltaSumWarnings = calcDelta (SumWarnings c) (SumWarnings p),
                          DeltaSumRowsAffected = calcDelta (SumRowsAffected c) (SumRowsAffected p),
                          DeltaSumRowsSent = calcDelta (SumRowsSent c) (SumRowsSent p),
                          DeltaSumRowsExamined = calcDelta (SumRowsExamined c) (SumRowsExamined p),
                          DeltaSumCreatedTmpTables =
                            calcDelta (SumCreatedTmpTables c) (SumCreatedTmpTables p),
                          DeltaSumCreatedTmpDiskTables =
                            calcDelta (SumCreatedTmpDiskTables c) (SumCreatedTmpDiskTables p),
                          DeltaSumSortRows = calcDelta (SumSortRows c) (SumSortRows p),
                          DeltaSumNoIndexUsed = calcDelta (SumNoIndexUsed c) (SumNoIndexUsed p),
                          DeltaSumNoGoodIndexUsed =
                            calcDelta (SumNoGoodIndexUsed c) (SumNoGoodIndexUsed p) \<rparr>"
    by (simp add: delta_entry_def calcDelta_def [of "CountStar c"] Let_def)
  have "deltas_of r = map2 calcDelta (counters_of c) (counters_of p)"
    unfolding r by (simp add: deltas_of_def counters_of_def)
  also have "calcDelta = (\<lambda>cv pv. if sint pv \<le> sint cv then cv - pv else cv)"
    by (simp add: calcDelta_def fun_eq_iff)
  finally show ?thesis .
qed

lemma pg_delta_entry_existing:
  assumes "Queries prev k = Some p" and "pg_delta_entry prev dt k c = Some r"
  shows "pg_int_deltas_of r =
           map2 (\<lambda>cv pv. if sint pv \<le> sint cv then cv - pv else cv)
             (pg_int_counters_of c) (pg_int_counters_of p)"
    and "pg_float_deltas_of r =
           map2 (\<lambda>cv pv. if pv \<le> cv then cv - pv else cv)
             (pg_float_counters_of c) (pg_float_counters_of p)"
proof -
  from assms have "0 < sint (calcDeltaInt64 (Calls c) (Calls p))"
    by (simp add: pg_delta_entry_def calcDeltaInt64_def Let_def split: if_splits)
  with assms have r: "r = \<lparr> DeltaQueryID = k,
                          DeltaUserID = UserID c,
                          DeltaDBID = DBID c,
                          DeltaQuery = Query c,
                          PGTimePeriodSecs = dt,
                          DeltaCalls = calcDeltaInt64 (Calls c) (Calls p),
                          DeltaTotalPlanTime = calcDeltaFloat64 (TotalPlanTime c) (TotalPlanTime p),
                          DeltaTotalExecTime = calcDeltaFloat64 (TotalExecTime c) (TotalExecTime p),
                          DeltaRows = calcDeltaInt64 (Rows c) (Rows p),
                          DeltaSharedBlksHit = calcDeltaInt64 (SharedBlksHit c) (SharedBlksHit p),
                          DeltaSharedBlksRead = calcDeltaInt64 (SharedBlksRead c) (SharedBlksRead p),
                          DeltaSharedBlksDirtied = calcDeltaInt64 (SharedBlksDirtied c) (SharedBlksDirtied p),
                          DeltaSharedBlksWritten = calcDeltaInt64 (SharedBlksWritten c) (SharedBlksWritten p),
                          DeltaLocalBlksHit = calcDeltaInt64 (LocalBlksHit c) (LocalBlksHit p),
                          DeltaLocalBlksRead = calcDeltaInt64 (LocalBlksRead c) (LocalBlksRead p),
                          DeltaLocalBlksDirtied = calcDeltaInt64 (LocalBlksDirtied c) (LocalBlksDirtied p),
                          DeltaLocalBlksWritten = calcDeltaInt64 (LocalBlksWritten c) (LocalBlksWritten p),
                          DeltaTempBlksRead = calcDeltaInt64 (TempBlksRead c) (TempBlksRead p),
                          DeltaTempBlksWritten = calcDeltaInt64 (TempBlksWritten c) (TempBlksWritten p),
                          DeltaBlkReadTime = calcDeltaFloat64 (BlkReadTime c) (BlkReadTime p),
                          DeltaBlkWriteTime = calcDeltaFloat64 (BlkWriteTime c) (BlkWriteTime p) \<rparr>"
    by (simp add: pg_delta_entry_def calcDeltaInt64_def [of "Calls c"] Let_def)
  have "pg_int_deltas_of r = map2 calcDeltaInt64 (pg_int_counters_of c) (pg_int_counters_of p)"
    unfolding r by (simp add: pg_int_deltas_of_def pg_int_counters_of_def)
  also have "calcDeltaInt64 = (\<lambda>cv pv. if sint pv \<le> sint cv then cv - pv else cv)"
    by (simp add: calcDeltaInt64_def fun_eq_iff)
  finally show "pg_int_deltas_of r =
           map2 (\<lambda>cv pv. if sint pv \<le> sint cv then cv - pv else cv)
             (pg_int_counters_of c) (pg_int_counters_of p)" .
  have "pg_float_deltas_of r =
          map2 calcDeltaFloat64 (pg_float_counters_of c) (pg_float_counters_of p)"
    unfolding r by (simp add: pg_float_deltas_of_def pg_float_counters_of_def)
  also have "calcDeltaFloat64 = (\<lambda>cv pv. if pv \<le> cv then cv - pv else cv)"
    by (simp add: calcDeltaFloat64_def fun_eq_iff)
  finally show "pg_float_deltas_of r =
           map2 (\<lambda>cv pv. if pv \<le> cv then cv - pv else cv)
             (pg_float_counters_of c) (pg_float_counters_of p)" .
qed

lemma mysql_reset_aware:
  assumes "Digests prev k = Some p" and "Digests cur k = Some c"
    and "r \<in> set (CalculateDeltas ks (Some prev) (Some cur))" and "DeltaDigest r = k"
  shows "deltas_of r =
           map2 (\<lambda>cv pv. if sint pv \<le> sint cv then cv - pv else cv) (counters_of c) (counters_of p)"
proof -
  from assms(3) obtain k' d where
    d: "Digests cur k' = Some d" and
    e: "delta_entry prev (Seconds (Time_Sub (Timestamp cur) (Timestamp prev))) k' d = Some r"
    by (auto simp: in_CalculateDeltas)
  from e assms(4) have "k' = k" by (simp add: delta_entry_digest)
  with d assms(2) have "d = c" by simp
  with e \<open>k' = k\<close> assms(1) show ?thesis by (simp add: delta_entry_existing)
qed

lemma pg_reset_aware:
  assumes "Queries prev k = Some p" and "Queries cur k = Some c"
    and "r \<in> set (pg_CalculateDeltas ks (Some prev) (Some cur))" and "DeltaQueryID r = k"
  shows "pg_int_deltas_of r =
           map2 (\<lambda>cv pv. if sint pv \<le> sint cv then cv - pv else cv)
             (pg_int_counters_of c) (pg_int_counters_of p) \<and>
         pg_float_deltas_of r =
           map2 (\<lambda>cv pv. if pv \<le> cv then cv - pv else cv)
             (pg_float_counters_of c) (pg_float_counters_of p)"
proof -
  from assms(3) obtain k' d where
    d: "Queries cur k' = Some d" and
    e: "pg_delta_entry prev (Seconds (Time_Sub (PGTimestamp cur) (PGTimestamp prev))) k' d = Some r"
    by (auto simp: in_pg_CalculateDeltas)
  from e assms(4) have "k' = k" by (simp add: pg_delta_entry_queryid)
  with d assms(2) have "d = c" by simp
  with e \<open>k' = k\<close> assms(1) show ?thesis by (simp add: pg_delta_entry_existing)
qed

lemmas sample_eval =
  CalculateDeltas_def pg_CalculateDeltas_def delta_entry_def pg_delta_entry_def
  sample_snapshot_def pg_sample_snapshot_def sample_digest_def sample_query_def
  Seconds_def Time_Sub_def Second_def maxDuration_def minDuration_def
  signed_divide_int_def signed_modulo_int_def calcDelta_def calcDeltaInt64_def
  calcDeltaFloat64_def Let_def

lemma reset_sample_deltas:
  "CalculateDeltas [''A''] (Some reset_prev) (Some reset_curr) =
     [\<lparr> DeltaDigest = ''A'', DeltaSchemaName = ''shop'', DeltaDigestText = ''SELECT ?'',
        TimePeriodSecs = 10, DeltaCountStar = 3, DeltaSumTimerWait = 120, DeltaSumLockTime = 0,
        DeltaSumErrors = 0, DeltaSumWarnings = 0, DeltaSumRowsAffected = 0,
        DeltaSumRowsSent = 0, DeltaSumRowsExamined = 0, DeltaSumCreatedTmpTables = 0,
        DeltaSumCreatedTmpDiskTables = 0, DeltaSumSortRows = 0, DeltaSumNoIndexUsed = 0,
        DeltaSumNoGoodIndexUsed = 0 \<rparr>]"
  by (simp add: reset_prev_def reset_curr_def sample_eval)

lemma pg_reset_sample_deltas:
  "pg_CalculateDeltas [''A''] (Some pg_reset_prev) (Some pg_reset_curr) =
     [\<lparr> DeltaQueryID = ''A'', DeltaUserID = ''10'', DeltaDBID = ''5'', DeltaQuery = ''SELECT $1'',
        PGTimePeriodSecs = 10, DeltaCalls = 3, DeltaTotalPlanTime = 0,
        DeltaTotalExecTime = 481 / 4, DeltaRows = 0, DeltaSharedBlksHit = 0,
        DeltaSharedBlksRead = 0, DeltaSharedBlksDirtied = 0, DeltaSharedBlksWritten = 0,
        DeltaLocalBlksHit = 0, DeltaLocalBlksRead = 0, DeltaLocalBlksDirtied = 0,
        DeltaLocalBlksWritten = 0, DeltaTempBlksRead = 0, DeltaTempBlksWritten = 0,
        DeltaBlkReadTime = 0, DeltaBlkWriteTime = 0 \<rparr>]"
  by (simp add: pg_reset_prev_def pg_reset_curr_def sample_eval)

text \<open>
  C2. For a key present in both snapshots whose record \<^verbatim>\<open>CalculateDeltas\<close> emits, every
  counter delta of the record (integer or fractional) is \<open>curr - prev\<close> when
  \<open>curr \<ge> prev\<close> and \<open>curr\<close> otherwise, in Go's arithmetic of the counter's type. This
  holds for the MySQL and for the PostgreSQL variant.
\<close>

theorem reset_aware_deltas:
  "(Digests prev k = Some p \<and> Digests cur k = Some c \<and>
    r \<in> set (CalculateDeltas ks (Some prev) (Some cur)) \<and> DeltaDigest r = k \<longrightarrow>
      deltas_of r =
        map2 (\<lambda>cv pv. if sint pv \<le> sint cv then cv - pv else cv) (counters_of c) (counters_of p)) \<and>
   (Queries pprev pk = Some pp \<and> Queries pcur pk = Some pc \<and>
    pr \<in> set (pg_CalculateDeltas pks (Some pprev) (Some pcur)) \<and> DeltaQueryID pr = pk \<longrightarrow>
      pg_int_deltas_of pr =
        map2 (\<lambda>cv pv. if sint pv \<le> sint cv then cv - pv else cv)
          (pg_int_counters_of pc) (pg_int_counters_of pp) \<and>
      pg_float_deltas_of pr =
        map2 (\<lambda>cv pv. if pv \<le> cv then cv - pv else cv)
          (pg_float_counters_of pc) (pg_float_counters_of pp))"
  using mysql_reset_aware pg_reset_aware by blast

theorem reset_aware_deltas_witness:
  "Digests reset_prev ''A'' = Some (sample_digest ''A'' 100 5000) \<and>
   Digests reset_curr ''A'' = Some (sample_digest ''A'' 103 120) \<and>
   hd (CalculateDeltas [''A''] (Some reset_prev) (Some reset_curr)) \<in>
     set (CalculateDeltas [''A''] (Some reset_prev) (Some reset_curr)) \<and>
   DeltaDigest (hd (CalculateDeltas [''A''] (Some reset_prev) (Some reset_curr))) = ''A'' \<and>
   deltas_of (hd (CalculateDeltas [''A''] (Some reset_prev) (Some reset_curr))) =
     [3, 120, 0, 0, 0, 0, 0, 0, 0, 0, 0, 0, 0] \<and>
   Queries pg_reset_prev ''A'' = Some (sample_query ''A'' 100 (10001 / 2)) \<and>
   Queries pg_reset_curr ''A'' = Some (sample_query ''A'' 103 (481 / 4)) \<and>
   hd (pg_CalculateDeltas [''A''] (Some pg_reset_prev) (Some pg_reset_curr)) \<in>
     set (pg_CalculateDeltas [''A''] (Some pg_reset_prev) (Some pg_reset_curr)) \<and>
   DeltaQueryID (hd (pg_CalculateDeltas [''A''] (Some pg_reset_prev) (Some pg_reset_curr))) = ''A'' \<and>
   pg_int_deltas_of (hd (pg_CalculateDeltas [''A''] (Some pg_reset_prev) (Some pg_reset_curr))) =
     [3, 0, 0, 0, 0, 0, 0, 0, 0, 0, 0, 0] \<and>
   pg_float_deltas_of (hd (pg_CalculateDeltas [''A''] (Some pg_reset_prev) (Some pg_reset_curr))) =
     [0, 481 / 4, 0, 0]"
  using reset_aware_deltas
    [of reset_prev "''A''" "sample_digest ''A'' 100 5000" reset_curr "sample_digest ''A'' 103 120"
        "hd (CalculateDeltas [''A''] (Some reset_prev) (Some reset_curr))" "[''A'']"
        pg_reset_prev "''A''" "sample_query ''A'' 100 (10001 / 2)" pg_reset_curr
        "sample_query ''A'' 103 (481 / 4)"
        "hd (pg_CalculateDeltas [''A''] (Some pg_reset_prev) (Some pg_reset_curr))" "[''A'']"]
  unfolding reset_sample_deltas pg_reset_sample_deltas
  by (simp add: reset_prev_def reset_curr_def pg_reset_prev_def pg_reset_curr_def
      sample_snapshot_def pg_sample_snapshot_def counters_of_def pg_int_counters_of_def
      pg_float_counters_of_def sample_digest_def sample_query_def)

lemmas sample_snapshots =
  empty_prev_def idle_curr_def negative_curr_def same_instant_curr_def earlier_curr_def
  pg_empty_prev_def pg_idle_curr_def pg_negative_curr_def pg_same_instant_curr_def
  pg_earlier_curr_def

text \<open>
  C1. The claim fails on the code for a key that is new in \<open>curr\<close>: the branch for new
  keys appends the record without looking at the execution count. Here the earlier snapshot
  is empty and the later one holds one statement with execution count 0; both variants of
  \<^verbatim>\<open>CalculateDeltas\<close> return one record, whose calls delta is 0.
\<close>

theorem new_key_without_calls_is_emitted:
  "length (CalculateDeltas [''B''] (Some empty_prev) (Some idle_curr)) = 1 \<and>
   DeltaDigest (hd (CalculateDeltas [''B''] (Some empty_prev) (Some idle_curr))) = ''B'' \<and>
   DeltaCountStar (hd (CalculateDeltas [''B''] (Some empty_prev) (Some idle_curr))) = 0 \<and>
   length (pg_CalculateDeltas [''B''] (Some pg_empty_prev) (Some pg_idle_curr)) = 1 \<and>
   DeltaQueryID (hd (pg_CalculateDeltas [''B''] (Some pg_empty_prev) (Some pg_idle_curr))) = ''B'' \<and>
   DeltaCalls (hd (pg_CalculateDeltas [''B''] (Some pg_empty_prev) (Some pg_idle_curr))) = 0"
  by (simp add: sample_snapshots sample_eval)

text \<open>
  C4. The claim fails on the code: \<^verbatim>\<open>CalculateDeltas\<close> stores the difference of the two
  timestamps as it is. For two snapshots taken at the same instant the emitted record has
  \<^verbatim>\<open>TimePeriodSecs\<close> 0, and for a later snapshot stamped five seconds before the earlier
  one it has \<^verbatim>\<open>TimePeriodSecs\<close> -5; neither is 1.
\<close>

theorem time_period_is_not_substituted:
  "length (CalculateDeltas [''B''] (Some empty_prev) (Some same_instant_curr)) = 1 \<and>
   TimePeriodSecs (hd (CalculateDeltas [''B''] (Some empty_prev) (Some same_instant_curr))) = 0 \<and>
   TimePeriodSecs (hd (CalculateDeltas [''B''] (Some empty_prev) (Some earlier_curr))) = - 5 \<and>
   length (pg_CalculateDeltas [''B''] (Some pg_empty_prev) (Some pg_same_instant_curr)) = 1 \<and>
   PGTimePeriodSecs
     (hd (pg_CalculateDeltas [''B''] (Some pg_empty_prev) (Some pg_same_instant_curr))) = 0 \<and>
   PGTimePeriodSecs
     (hd (pg_CalculateDeltas [''B''] (Some pg_empty_prev) (Some pg_earlier_curr))) = - 5"
  by (simp add: sample_snapshots sample_eval)

lemma sint_sub_nonneg:
  fixes a b :: int64
  assumes "0 \<le> sint b" and "sint b \<le> sint a"
  shows "0 \<le> sint (a - b)"
proof -
  have "sint a < 2 ^ 63" using sint_lt [of a] by simp
  with assms have "- (2 ^ 63) \<le> sint a - sint b" and "sint a - sint b < 2 ^ 63" by auto
  then have "sint (a - b) = sint a - sint b"
    by (simp add: sint_word_ariths signed_take_bit_int_eq_self)
  with assms show ?thesis by simp
qed

lemma map2_nonneg_int64:
  assumes "\<forall>v \<in> set xs. 0 \<le> sint v" and "\<forall>v \<in> set ys. 0 \<le> sint v"
    and "w \<in> set (map2 (\<lambda>cv pv. if sint pv \<le> sint cv then cv - pv else cv) xs ys)"
  shows "0 \<le> sint (w :: int64)"
proof -
  from assms(3) obtain x y where xy: "(x, y) \<in> set (zip xs ys)"
    and w: "w = (if sint y \<le> sint x then x - y else x)" by auto
  from xy have "x \<in> set xs" and "y \<in> set ys"
    by (auto dest: set_zip_leftD set_zip_rightD)
  with assms(1,2) have "0 \<le> sint x" and "0 \<le> sint y" by auto
  then show ?thesis unfolding w by (simp add: sint_sub_nonneg)
qed

lemma map2_nonneg_float64:
  assumes "\<forall>v \<in> set xs. 0 \<le> v"
    and "w \<in> set (map2 (\<lambda>cv pv. if pv \<le> cv then cv - pv else cv) xs ys)"
  shows "0 \<le> (w :: float64)"
proof -
  from assms(2) obtain x y where xy: "(x, y) \<in> set (zip xs ys)"
    and w: "w = (if y \<le> x then x - y else x)" by auto
  from xy have "x \<in> set xs" by (auto dest: set_zip_leftD)
  with assms(1) have "0 \<le> x" by auto
  then show ?thesis unfolding w by simp
qed

lemma mysql_deltas_nonneg:
  assumes prev: "\<forall>k d. Digests prev k = Some d \<longrightarrow> nonneg_counters d"
    and cur: "\<forall>k d. Digests cur k = Some d \<longrightarrow> nonneg_counters d"
    and r: "r \<in> set (CalculateDeltas ks (Some prev) (Some cur))"
  shows "\<forall>v \<in> set (deltas_of r). 0 \<le> sint v"
proof -
  from r obtain k d where
    d: "Digests cur k = Some d" and
    e: "delta_entry prev (Seconds (Time_Sub (Timestamp cur) (Timestamp prev))) k d = Some r"
    by (auto simp: in_CalculateDeltas)
  from cur d have nd: "\<forall>v \<in> set (counters_of d). 0 \<le> sint v"
    by (simp add: nonneg_counters_def)
  show ?thesis
  proof (cases "Digests prev k")
    case None
    from None e have "deltas_of r = counters_of d" by (rule delta_entry_new)
    with nd show ?thesis by simp
  next
    case (Some p)
    with prev have np: "\<forall>v \<in> set (counters_of p). 0 \<le> sint v"
      by (simp add: nonneg_counters_def)
    from Some e have
      "deltas_of r =
         map2 (\<lambda>cv pv. if sint pv \<le> sint cv then cv - pv else cv) (counters_of d) (counters_of p)"
      by (rule delta_entry_existing)
    then have eq: "deltas_of r =
         map2 (\<lambda>cv pv. if sint pv \<le> sint cv then cv - pv else cv) (counters_of d) (counters_of p)" .
    show ?thesis
    proof
      fix v
      assume "v \<in> set (deltas_of r)"
      then have "v \<in> set (map2 (\<lambda>cv pv. if sint pv \<le> sint cv then cv - pv else cv)
                            (counters_of d) (counters_of p))"
        unfolding eq .
      with nd np show "0 \<le> sint v" by (rule map2_nonneg_int64)
    qed
  qed
qed

lemma pg_deltas_nonneg:
  assumes prev: "\<forall>k d. Queries prev k = Some d \<longrightarrow> pg_nonneg_counters d"
    and cur: "\<forall>k d. Queries cur k = Some d \<longrightarrow> pg_nonneg_counters d"
    and r: "r \<in> set (pg_CalculateDeltas ks (Some prev) (Some cur))"
  shows "(\<forall>v \<in> set (pg_int_deltas_of r). 0 \<le> sint v) \<and> (\<forall>x \<in> set (pg_float_deltas_of r). 0 \<le> x)"
proof -
  from r obtain k d where
    d: "Queries cur k = Some d" and
    e: "pg_delta_entry prev (Seconds (Time_Sub (PGTimestamp cur) (PGTimestamp prev))) k d = Some r"
    by (auto simp: in_pg_CalculateDeltas)
  from cur d have nd: "\<forall>v \<in> set (pg_int_counters_of d). 0 \<le> sint v"
    and fd: "\<forall>x \<in> set (pg_float_counters_of d). 0 \<le> x"
    by (simp_all add: pg_nonneg_counters_def)
  show ?thesis
  proof (cases "Queries prev k")
    case None
    from None e have "pg_int_deltas_of r = pg_int_counters_of d"
      and "pg_float_deltas_of r = pg_float_counters_of d"
      by (rule pg_delta_entry_new)+
    with nd fd show ?thesis by simp
  next
    case (Some p)
    with prev have np: "\<forall>v \<in> set (pg_int_counters_of p). 0 \<le> sint v"
      by (simp add: pg_nonneg_counters_def)
    from Some e have
      i: "pg_int_deltas_of r =
            map2 (\<lambda>cv pv. if sint pv \<le> sint cv then cv - pv else cv)
              (pg_int_counters_of d) (pg_int_counters_of p)"
      and f: "pg_float_deltas_of r =
            map2 (\<lambda>cv pv. if pv \<le> cv then cv - pv else cv)
              (pg_float_counters_of d) (pg_float_counters_of p)"
      by (rule pg_delta_entry_existing)+
    have "\<forall>v \<in> set (pg_int_deltas_of r). 0 \<le> sint v"
    proof
      fix v
      assume "v \<in> set (pg_int_deltas_of r)"
      then have "v \<in> set (map2 (\<lambda>cv pv. if sint pv \<le> sint cv then cv - pv else cv)
                            (pg_int_counters_of d) (pg_int_counters_of p))"
        unfolding i .
      with nd np show "0 \<le> sint v" by (rule map2_nonneg_int64)
    qed
    moreover have "\<forall>x \<in> set (pg_float_deltas_of r). 0 \<le> x"
    proof
      fix x
      assume "x \<in> set (pg_float_deltas_of r)"
      then have "x \<in> set (map2 (\<lambda>cv pv. if pv \<le> cv then cv - pv else cv)
                            (pg_float_counters_of d) (pg_float_counters_of p))"
        unfolding f .
      with fd show "0 \<le> x" by (rule map2_nonneg_float64)
    qed
    ultimately show ?thesis by simp
  qed
qed

text \<open>
  C9, as the code has it. When every counter of every row of both snapshots is
  non-negative, every counter delta of every record that \<^verbatim>\<open>CalculateDeltas\<close> emits is
  non-negative, for the MySQL and for the PostgreSQL variant. (The counters are signed
  64-bit integers and floating-point numbers; the code does not look at their sign.)
\<close>

theorem deltas_nonnegative:
  "((\<forall>k d. Digests prev k = Some d \<longrightarrow> nonneg_counters d) \<and>
    (\<forall>k d. Digests cur k = Some d \<longrightarrow> nonneg_counters d) \<and>
    r \<in> set (CalculateDeltas ks (Some prev) (Some cur)) \<longrightarrow>
      (\<forall>v \<in> set (deltas_of r). 0 \<le> sint v)) \<and>
   ((\<forall>k d. Queries pprev k = Some d \<longrightarrow> pg_nonneg_counters d) \<and>
    (\<forall>k d. Queries pcur k = Some d \<longrightarrow> pg_nonneg_counters d) \<and>
    pr \<in> set (pg_CalculateDeltas pks (Some pprev) (Some pcur)) \<longrightarrow>
      (\<forall>v \<in> set (pg_int_deltas_of pr). 0 \<le> sint v) \<and>
      (\<forall>x \<in> set (pg_float_deltas_of pr). 0 \<le> x))"
  using mysql_deltas_nonneg pg_deltas_nonneg by blast

lemma reset_samples_nonneg:
  "(\<forall>k d. Digests reset_prev k = Some d \<longrightarrow> nonneg_counters d) \<and>
   (\<forall>k d. Digests reset_curr k = Some d \<longrightarrow> nonneg_counters d) \<and>
   (\<forall>k d. Queries pg_reset_prev k = Some d \<longrightarrow> pg_nonneg_counters d) \<and>
   (\<forall>k d. Queries pg_reset_curr k = Some d \<longrightarrow> pg_nonneg_counters d)"
  by (auto simp: reset_prev_def reset_curr_def pg_reset_prev_def pg_reset_curr_def
      sample_snapshot_def pg_sample_snapshot_def sample_digest_def sample_query_def
      nonneg_counters_def pg_nonneg_counters_def counters_of_def pg_int_counters_of_def
      pg_float_counters_of_def split: if_splits)

theorem deltas_nonnegative_witness:
  "hd (CalculateDeltas [''A''] (Some reset_prev) (Some reset_curr)) \<in>
     set (CalculateDeltas [''A''] (Some reset_prev) (Some reset_curr)) \<and>
   0 \<le> sint (DeltaCountStar (hd (CalculateDeltas [''A''] (Some reset_prev) (Some reset_curr)))) \<and>
   0 \<le> sint (DeltaSumTimerWait (hd (CalculateDeltas [''A''] (Some reset_prev) (Some reset_curr)))) \<and>
   hd (pg_CalculateDeltas [''A''] (Some pg_reset_prev) (Some pg_reset_curr)) \<in>
     set (pg_CalculateDeltas [''A''] (Some pg_reset_prev) (Some pg_reset_curr)) \<and>
   0 \<le> sint (DeltaCalls
               (hd (pg_CalculateDeltas [''A''] (Some pg_reset_prev) (Some pg_reset_curr)))) \<and>
   0 \<le> DeltaTotalExecTime
         (hd (pg_CalculateDeltas [''A''] (Some pg_reset_prev) (Some pg_reset_curr)))"
  using deltas_nonnegative
    [of reset_prev reset_curr
        "hd (CalculateDeltas [''A''] (Some reset_prev) (Some reset_curr))" "[''A'']"
        pg_reset_prev pg_reset_curr
        "hd (pg_CalculateDeltas [''A''] (Some pg_reset_prev) (Some pg_reset_curr))" "[''A'']"]
    reset_samples_nonneg
  unfolding reset_sample_deltas pg_reset_sample_deltas
  by (simp add: deltas_of_def pg_int_deltas_of_def pg_float_deltas_of_def)

text \<open>
  C9 as stated fails: a row with a negative counter is a snapshot like any other. For a
  new statement whose time counter is -1 both variants emit a record with that delta.
\<close>

theorem deltas_nonnegative_counterexample:
  "length (CalculateDeltas [''B''] (Some empty_prev) (Some negative_curr)) = 1 \<and>
   sint (DeltaSumTimerWait (hd (CalculateDeltas [''B''] (Some empty_prev) (Some negative_curr)))) = - 1 \<and>
   length (pg_CalculateDeltas [''B''] (Some pg_empty_prev) (Some pg_negative_curr)) = 1 \<and>
   DeltaTotalExecTime
     (hd (pg_CalculateDeltas [''B''] (Some pg_empty_prev) (Some pg_negative_curr))) = - 1"
  by (simp add: sample_snapshots sample_eval)

section \<open>The load probe\<close>

lemma ParseInt_samples:
  "ParseInt ''1'' = 1" "ParseInt ''2'' = 2" "ParseInt ''1500'' = 1500" "ParseInt ''86400'' = 86400"
  by (simp_all add: ParseInt_def is_digit_def Let_def)

lemma sample_status_metrics:
  "collectMySQLMetrics sample_status_db 0 =
     Inr \<lparr> ThreadsRunning = 1, ThreadsConnected = 2, Questions = 1500, SlowQueries = 0,
           InnodbRowLockTime = 0, Uptime = 86400, MetricsTimestamp = 0 \<rparr>"
  by (simp add: collectMySQLMetrics_def sample_status_db_def Atoi_def ParseInt_samples)

text \<open>
  C5, as the code has it. On the first load probe (no prior reading stored) with a status
  query that succeeds, \<^verbatim>\<open>CollectMetrics\<close> returns without error the load
  \<open>0.7 * min 1 (Threads_running / Threads_connected)\<close>, and 0 when \<open>Threads_connected\<close> is
  zero or negative: the thread ratio enters the composite load with its weight 0.7, and the
  slow-query term is zero.
\<close>

theorem first_probe_load:
  "lastMetrics c = None \<and> collectMySQLMetrics db now = Inr m \<longrightarrow>
     fst (CollectMetrics c db now) =
       (if sint (ThreadsConnected m) \<le> 0 then 0
        else 0.7 * min 1 (real_of_int (sint (ThreadsRunning m)) /
                          real_of_int (sint (ThreadsConnected m))),
        None)"
  by (simp add: CollectMetrics_def CalculateDiff_def Diff_CalculateLoad_def float64_of_def
      Let_def min_def)

theorem first_probe_load_witness:
  "lastMetrics NewMySQLCollector = None \<and>
   collectMySQLMetrics sample_status_db 0 =
     Inr \<lparr> ThreadsRunning = 1, ThreadsConnected = 2, Questions = 1500, SlowQueries = 0,
           InnodbRowLockTime = 0, Uptime = 86400, MetricsTimestamp = 0 \<rparr> \<and>
   fst (CollectMetrics NewMySQLCollector sample_status_db 0) = (7 / 20, None)"
  using first_probe_load
    [of NewMySQLCollector sample_status_db 0
        "\<lparr> ThreadsRunning = 1, ThreadsConnected = 2, Questions = 1500, SlowQueries = 0,
           InnodbRowLockTime = 0, Uptime = 86400, MetricsTimestamp = 0 \<rparr>"]
  by (simp add: sample_status_metrics NewMySQLCollector_def)

text \<open>
  C5 as stated fails: with one of two connected threads running, the first probe returns
  the load 0.35, not the ratio 0.5.
\<close>

theorem first_probe_load_counterexample:
  "lastMetrics NewMySQLCollector = None \<and>
   collectMySQLMetrics sample_status_db 0 =
     Inr \<lparr> ThreadsRunning = 1, ThreadsConnected = 2, Questions = 1500, SlowQueries = 0,
           InnodbRowLockTime = 0, Uptime = 86400, MetricsTimestamp = 0 \<rparr> \<and>
   fst (CollectMetrics NewMySQLCollector sample_status_db 0) = (7 / 20, None) \<and>
   (7 / 20 :: real) \<noteq> min 1 (max 0 (1 / 2))"
  by (simp add: CollectMetrics_def sample_status_metrics NewMySQLCollector_def CalculateDiff_def
      Diff_CalculateLoad_def float64_of_def Let_def)

section \<open>The adaptive governor\<close>

lemmas governor_eval =
  NewAdaptiveGovernor_def restoreState_def saveState_def ProcessLoadMetrics_def
  adjustInterval_def new_interval_def significant_change_def WithIntervalChangeCallback_def
  NewEMA_def EMA_Update_def EMA_Value_def EMA_SetValue_def
  MinimumInterval_def MaximumInterval_def Millisecond_def Second_def Minute_def Hour_def
  HighLoadThreshold_def CriticalLoadThreshold_def FastEMAAlpha_def SlowEMAAlpha_def
  DefaultJitterPercent_def zero_Time_def Time_Sub_def maxDuration_def minDuration_def Let_def

text \<open>
  C3. The claim fails on the code: \<^verbatim>\<open>NewAdaptiveGovernor\<close> raises a base interval below
  \<^verbatim>\<open>MinimumInterval\<close> but does not lower one above \<^verbatim>\<open>MaximumInterval\<close>. Constructed with a
  base interval of 120 s and no state directory, the governor has a current interval of
  120 s, above the maximum of 60 s, and keeps it after a load sample of 0.1.
\<close>

theorem base_interval_above_maximum:
  "currentInterval (NewAdaptiveGovernor os now fs (120 * Second) []) = 120 * Second \<and>
   currentInterval
     (fst (ProcessLoadMetrics os now' (1 / 10)
             (NewAdaptiveGovernor os now fs (120 * Second) []) fs)) = 120 * Second \<and>
   MaximumInterval < 120 * Second"
  by (simp add: governor_eval)

lemma new_interval_cases:
  "new_interval base fast =
     (if fast \<le> 0.7 then base
      else if fast \<le> 0.9
        then min MaximumInterval
               (Duration_of_float (real_of_int base * 2 powr (fast / 0.7 - 1)))
      else MaximumInterval)"
  by (simp add: new_interval_def HighLoadThreshold_def CriticalLoadThreshold_def Let_def
      min_def not_le not_less)

lemma significant_change_quotient:
  "significant_change candidate cur =
     (if cur = 0 then candidate \<noteq> 0
      else \<bar>real_of_int (candidate - cur)\<bar> / real_of_int cur > 0.1)"
  by (simp add: significant_change_def)

lemma adjustInterval_fields:
  "currentInterval (adjustInterval g) =
     (if significant_change (new_interval (baseInterval g) (ema_value (fastEMA g)))
           (currentInterval g)
      then new_interval (baseInterval g) (ema_value (fastEMA g))
      else currentInterval g)"
  "callbackCalls (adjustInterval g) =
     callbackCalls g @
       (if significant_change (new_interval (baseInterval g) (ema_value (fastEMA g)))
             (currentInterval g) \<and> intervalChangeCb g
        then [new_interval (baseInterval g) (ema_value (fastEMA g))]
        else [])"
  "fastEMA (adjustInterval g) = fastEMA g"
  by (simp_all add: adjustInterval_def EMA_Value_def Let_def)

lemma ProcessLoadMetrics_adjust:
  "\<exists>g1. fastEMA g1 = fastEMA (fst (ProcessLoadMetrics os now load g fs)) \<and>
         baseInterval g1 = baseInterval g \<and> currentInterval g1 = currentInterval g \<and>
         callbackCalls g1 = callbackCalls g \<and> intervalChangeCb g1 = intervalChangeCb g \<and>
         currentInterval (fst (ProcessLoadMetrics os now load g fs)) =
           currentInterval (adjustInterval g1) \<and>
         callbackCalls (fst (ProcessLoadMetrics os now load g fs)) =
           callbackCalls (adjustInterval g1)"
proof -
  define g1 where "g1 =
    g \<lparr> fastEMA := EMA_Update (fastEMA g)
                      (if load < 0 then 0 else if load > 1 then 1 else load),
        slowEMA := EMA_Update (slowEMA g)
                      (if load < 0 then 0 else if load > 1 then 1 else load) \<rparr>"
  have "fst (ProcessLoadMetrics os now load g fs) = adjustInterval g1 \<or>
        fst (ProcessLoadMetrics os now load g fs) = (adjustInterval g1) \<lparr> lastSnapshotTime := now \<rparr>"
    by (cases "Minute < Time_Sub now (lastSnapshotTime (adjustInterval g1))")
      (simp_all add: ProcessLoadMetrics_def g1_def Let_def split del: if_split)
  then have "fastEMA (fst (ProcessLoadMetrics os now load g fs)) = fastEMA g1"
    and "currentInterval (fst (ProcessLoadMetrics os now load g fs)) =
           currentInterval (adjustInterval g1)"
    and "callbackCalls (fst (ProcessLoadMetrics os now load g fs)) =
           callbackCalls (adjustInterval g1)"
    by (auto simp: adjustInterval_fields(3))
  moreover have "baseInterval g1 = baseInterval g" "currentInterval g1 = currentInterval g"
    "callbackCalls g1 = callbackCalls g" "intervalChangeCb g1 = intervalChangeCb g"
    by (simp_all add: g1_def)
  ultimately show ?thesis by metis
qed

lemma new_interval_floor:
  assumes "0 \<le> base"
  shows "new_interval base fast =
     (if fast \<le> 0.7 then base
      else if fast \<le> 0.9
        then min 60000000000 \<lfloor>real_of_int base * 2 powr (fast / 0.7 - 1)\<rfloor>
      else 60000000000)"
proof -
  from assms have "0 \<le> real_of_int base * 2 powr (fast / 0.7 - 1)" by simp
  then show ?thesis
    by (simp add: new_interval_cases Duration_of_float_def MaximumInterval_def Second_def)
qed

lemma scaled_interval_in_range:
  assumes "0 \<le> base" and "base \<le> 2 ^ 62" and "fast \<le> 0.9"
  shows "0 \<le> real_of_int base * 2 powr (fast / 0.7 - 1)"
    and "real_of_int base * 2 powr (fast / 0.7 - 1) < 2 ^ 63"
proof -
  from assms(1) show "0 \<le> real_of_int base * 2 powr (fast / 0.7 - 1)" by simp
  from assms(3) have "fast / 0.7 - 1 < 1" by simp
  then have "2 powr (fast / 0.7 - 1) < 2 powr 1"
    by (rule powr_less_mono) simp
  then have p: "2 powr (fast / 0.7 - 1) < 2" by simp
  from assms(2) have "real_of_int base \<le> 2 ^ 62"
    by (metis of_int_le_iff of_int_numeral of_int_power)
  then have "real_of_int base * 2 powr (fast / 0.7 - 1) \<le> 2 ^ 62 * 2 powr (fast / 0.7 - 1)"
    by (rule mult_right_mono) simp
  also from p have "2 ^ 62 * 2 powr (fast / 0.7 - 1) < 2 ^ 62 * (2 :: real)"
    by (simp only: mult_less_cancel_left_pos zero_less_power zero_less_numeral)
  finally show "real_of_int base * 2 powr (fast / 0.7 - 1) < 2 ^ 63" by simp
qed

lemma NewAdaptiveGovernor_base:
  "MinimumInterval \<le> baseInterval (NewAdaptiveGovernor os now fs base dir)"
  by (simp add: NewAdaptiveGovernor_def restoreState_def Let_def split: option.splits sum.splits)

text \<open>
  C6. For a governor whose base interval is not negative and at most \<open>2 ^ 62\<close> ns (every
  governor made by \<^verbatim>\<open>NewAdaptiveGovernor\<close> has a base interval of at least
  \<^verbatim>\<open>MinimumInterval\<close>; up to \<open>2 ^ 62\<close> ns the scaled interval stays in the range of
  \<^verbatim>\<open>int64\<close>, where Go defines the conversion to \<^verbatim>\<open>time.Duration\<close>). After
  \<^verbatim>\<open>ProcessLoadMetrics(load)\<close>, with \<open>fast\<close> the value of the fast EMA after the call: the
  candidate interval is the base interval when \<open>fast \<le> 0.70\<close>; when \<open>0.70 < fast \<le> 0.90\<close>
  it is the base interval times \<open>2\<close> to the power \<open>fast / 0.70 - 1\<close>, as a whole number of
  nanoseconds (the fraction dropped), capped at 60 s; and it is 60 s when \<open>fast > 0.90\<close>. The
  current interval becomes the candidate, and the registered callback is invoked with it, if
  and only if \<open>|candidate - current| / current > 0.10\<close>; otherwise the current interval stays
  and the callback is not invoked. (For a current interval of zero the quotient is the IEEE
  one: the test holds exactly when the candidate is not zero.)
\<close>

theorem ProcessLoadMetrics_interval:
  "0 \<le> baseInterval g \<and> baseInterval g \<le> 2 ^ 62 \<longrightarrow>
   (let g' = fst (ProcessLoadMetrics os now load g fs);
        fast = ema_value (fastEMA g');
        scaled = real_of_int (baseInterval g) * 2 powr (fast / 0.7 - 1);
        candidate =
          (if fast \<le> 0.7 then baseInterval g
           else if fast \<le> 0.9 then min 60000000000 \<lfloor>scaled\<rfloor>
           else 60000000000);
        commit =
          (if currentInterval g = 0 then candidate \<noteq> 0
           else \<bar>real_of_int (candidate - currentInterval g)\<bar> / real_of_int (currentInterval g)
                  > 0.1)
    in (0.7 < fast \<and> fast \<le> 0.9 \<longrightarrow> 0 \<le> scaled \<and> scaled < 2 ^ 63) \<and>
       currentInterval g' = (if commit then candidate else currentInterval g) \<and>
       callbackCalls g' =
         callbackCalls g @ (if commit \<and> intervalChangeCb g then [candidate] else []))"
proof (intro impI)
  assume range: "0 \<le> baseInterval g \<and> baseInterval g \<le> 2 ^ 62"
  obtain g1 where g1:
    "fastEMA g1 = fastEMA (fst (ProcessLoadMetrics os now load g fs))"
    "baseInterval g1 = baseInterval g" "currentInterval g1 = currentInterval g"
    "callbackCalls g1 = callbackCalls g" "intervalChangeCb g1 = intervalChangeCb g"
    "currentInterval (fst (ProcessLoadMetrics os now load g fs)) =
       currentInterval (adjustInterval g1)"
    "callbackCalls (fst (ProcessLoadMetrics os now load g fs)) =
       callbackCalls (adjustInterval g1)"
    using ProcessLoadMetrics_adjust [of os now load g fs] by blast
  from range have floor: "\<And>fast. new_interval (baseInterval g) fast =
     (if fast \<le> 0.7 then baseInterval g
      else if fast \<le> 0.9
        then min 60000000000 \<lfloor>real_of_int (baseInterval g) * 2 powr (fast / 0.7 - 1)\<rfloor>
      else 60000000000)"
    by (simp add: new_interval_floor)
  from range have inrange: "\<And>fast. 0.7 < fast \<and> fast \<le> 0.9 \<longrightarrow>
      0 \<le> real_of_int (baseInterval g) * 2 powr (fast / 0.7 - 1) \<and>
      real_of_int (baseInterval g) * 2 powr (fast / 0.7 - 1) < 2 ^ 63"
    using scaled_interval_in_range by blast
  show "let g' = fst (ProcessLoadMetrics os now load g fs);
        fast = ema_value (fastEMA g');
        scaled = real_of_int (baseInterval g) * 2 powr (fast / 0.7 - 1);
        candidate =
          (if fast \<le> 0.7 then baseInterval g
           else if fast \<le> 0.9 then min 60000000000 \<lfloor>scaled\<rfloor>
           else 60000000000);
        commit =
          (if currentInterval g = 0 then candidate \<noteq> 0
           else \<bar>real_of_int (candidate - currentInterval g)\<bar> / real_of_int (currentInterval g)
                  > 0.1)
    in (0.7 < fast \<and> fast \<le> 0.9 \<longrightarrow> 0 \<le> scaled \<and> scaled < 2 ^ 63) \<and>
       currentInterval g' = (if commit then candidate else currentInterval g) \<and>
       callbackCalls g' =
         callbackCalls g @ (if commit \<and> intervalChangeCb g then [candidate] else [])"
    unfolding Let_def g1(6,7) adjustInterval_fields(1,2) g1(1,2,3,4,5)
      floor significant_change_quotient
    by (intro conjI inrange refl)
qed

lemma fourth_root_of_two_scaled:
  "\<lfloor>1000000000 * 2 powr (1 / 4) :: real\<rfloor> = 1189207115"
proof -
  have root: "\<And>a :: real. 0 < a \<Longrightarrow> (a ^ 4) powr (1 / 4) = a"
    by (simp add: powr_powr flip: powr_numeral)
  have lo: "(1189207115 / 1000000000 :: real) \<le> 2 powr (1 / 4)"
  proof -
    have "((1189207115 / 1000000000 :: real) ^ 4) powr (1 / 4) \<le> 2 powr (1 / 4)"
      by (rule powr_mono2) (simp_all add: field_simps)
    then show ?thesis by (simp only: root [of "1189207115 / 1000000000"] zero_less_divide_iff
          zero_less_numeral simp_thms)
  qed
  have hi: "2 powr (1 / 4) < (1189207116 / 1000000000 :: real)"
  proof -
    have "2 powr (1 / 4) < ((1189207116 / 1000000000 :: real) ^ 4) powr (1 / 4)"
      by (rule powr_less_mono2) (simp_all add: field_simps)
    then show ?thesis by (simp only: root [of "1189207116 / 1000000000"] zero_less_divide_iff
          zero_less_numeral simp_thms)
  qed
  from lo hi show ?thesis by (simp add: floor_eq_iff field_simps)
qed

theorem ProcessLoadMetrics_interval_witness:
  "0 \<le> baseInterval sample_governor \<and> baseInterval sample_governor \<le> 2 ^ 62 \<and>
   currentInterval sample_governor = 1000000000 \<and>
   ema_value (fastEMA (fst (ProcessLoadMetrics (sample_os cold_state) 5 (7 / 8)
                              sample_governor Map.empty))) = 7 / 8 \<and>
   currentInterval (fst (ProcessLoadMetrics (sample_os cold_state) 5 (7 / 8)
                           sample_governor Map.empty)) = 1189207115 \<and>
   callbackCalls (fst (ProcessLoadMetrics (sample_os cold_state) 5 (7 / 8)
                         sample_governor Map.empty)) = [1189207115] \<and>
   ema_value (fastEMA (fst (ProcessLoadMetrics (sample_os cold_state) 5 (19 / 20)
                              sample_governor Map.empty))) = 19 / 20 \<and>
   currentInterval (fst (ProcessLoadMetrics (sample_os cold_state) 5 (19 / 20)
                           sample_governor Map.empty)) = 60000000000 \<and>
   callbackCalls (fst (ProcessLoadMetrics (sample_os cold_state) 5 (19 / 20)
                         sample_governor Map.empty)) = [60000000000]"
proof -
  have g: "baseInterval sample_governor = 1000000000" "currentInterval sample_governor = 1000000000"
    "intervalChangeCb sample_governor" "callbackCalls sample_governor = []"
    by (simp_all add: sample_governor_def governor_eval)
  have mid: "ema_value (fastEMA (fst (ProcessLoadMetrics (sample_os cold_state) 5 (7 / 8)
                              sample_governor Map.empty))) = 7 / 8"
    and crit: "ema_value (fastEMA (fst (ProcessLoadMetrics (sample_os cold_state) 5 (19 / 20)
                              sample_governor Map.empty))) = 19 / 20"
    by (simp_all add: sample_governor_def governor_eval)
  have e: "(7 / 8 / (7 / 10) - 1 :: real) = 1 / 4" by simp
  show ?thesis
    using ProcessLoadMetrics_interval
        [of sample_governor "sample_os cold_state" 5 "7 / 8" Map.empty]
      ProcessLoadMetrics_interval
        [of sample_governor "sample_os cold_state" 5 "19 / 20" Map.empty]
    unfolding Let_def mid crit g
    by (simp add: e fourth_root_of_two_scaled g)
qed

lemma saveState_writes:
  assumes "save_succeeds os now g" and "json_Marshal os (state_of now g) = Inr data"
  shows "saveState os now g fs (state_path (stateDir g)) =
           Some \<lparr> contents = data, ModTime = now \<rparr>"
  using assms
  by (simp add: save_succeeds_def saveState_def state_of_def state_path_def Let_def)

lemma restoreState_reads:
  assumes "stateDir g \<noteq> []"
    and "Stat_err os (state_path (stateDir g)) = None"
    and "ReadFile_err os (state_path (stateDir g)) = None"
    and "fs (state_path (stateDir g)) = Some \<lparr> contents = data, ModTime = t \<rparr>"
    and "\<not> Time_Sub now t > Hour"
    and "json_Unmarshal os data = Inr st"
  shows "restoreState os now g fs =
           g \<lparr> fastEMA := EMA_SetValue (fastEMA g) (FastEMAValue st),
               slowEMA := EMA_SetValue (slowEMA g) (SlowEMAValue st),
               currentInterval := Interval st,
               lastSnapshotTime := StateTimestamp st \<rparr>"
  using assms by (simp add: restoreState_def state_path_def Let_def)

lemma save_restore_roundtrip:
  assumes save: "save_succeeds os t g"
    and reads: "restore_reads_back os t g"
    and fresh: "Time_Sub t' t \<le> Hour"
  shows "ema_value (fastEMA (NewAdaptiveGovernor os t' (saveState os t g fs) base (stateDir g))) =
           ema_value (fastEMA g) \<and>
         ema_value (slowEMA (NewAdaptiveGovernor os t' (saveState os t g fs) base (stateDir g))) =
           ema_value (slowEMA g) \<and>
         currentInterval (NewAdaptiveGovernor os t' (saveState os t g fs) base (stateDir g)) =
           currentInterval g"
proof -
  from save obtain data where m: "json_Marshal os (state_of t g) = Inr data"
    by (auto simp: save_succeeds_def)
  with reads have u: "json_Unmarshal os data = Inr (state_of t g)"
    by (simp add: restore_reads_back_def)
  from save m have w: "saveState os t g fs (state_path (stateDir g)) =
      Some \<lparr> contents = data, ModTime = t \<rparr>"
    by (rule saveState_writes)
  define g0 where "g0 =
    \<lparr> fastEMA = NewEMA FastEMAAlpha, slowEMA = NewEMA SlowEMAAlpha,
      baseInterval = (if base < MinimumInterval then MinimumInterval else base),
      currentInterval = (if base < MinimumInterval then MinimumInterval else base),
      jitterPercent = DefaultJitterPercent, stateDir = stateDir g,
      lastSnapshotTime = zero_Time, intervalChangeCb = False, callbackCalls = [] \<rparr>"
  have dir: "stateDir g0 = stateDir g" by (simp add: g0_def)
  have new: "NewAdaptiveGovernor os t' (saveState os t g fs) base (stateDir g) =
      restoreState os t' g0 (saveState os t g fs)"
    by (simp add: NewAdaptiveGovernor_def g0_def Let_def)
  from save have "stateDir g0 \<noteq> []" by (simp add: save_succeeds_def dir)
  moreover from reads have "Stat_err os (state_path (stateDir g0)) = None"
    and "ReadFile_err os (state_path (stateDir g0)) = None"
    by (simp_all add: restore_reads_back_def dir)
  moreover from w have "saveState os t g fs (state_path (stateDir g0)) =
      Some \<lparr> contents = data, ModTime = t \<rparr>" by (simp add: dir)
  moreover from fresh have "\<not> Time_Sub t' t > Hour" by simp
  ultimately have "restoreState os t' g0 (saveState os t g fs) =
      g0 \<lparr> fastEMA := EMA_SetValue (fastEMA g0) (FastEMAValue (state_of t g)),
           slowEMA := EMA_SetValue (slowEMA g0) (SlowEMAValue (state_of t g)),
           currentInterval := Interval (state_of t g),
           lastSnapshotTime := StateTimestamp (state_of t g) \<rparr>"
    using u by (rule restoreState_reads)
  with new show ?thesis
    by (simp add: state_of_def EMA_SetValue_def EMA_Value_def)
qed

text \<open>
  C7. For a governor with a non-empty state directory: when \<^verbatim>\<open>saveState\<close> succeeds at time
  \<open>t\<close> (no system call fails, the state is encoded), and a new governor is constructed on the
  same state directory at a time \<open>t'\<close> at most one hour later, on a machine where the state
  file can be read and \<^verbatim>\<open>json.Unmarshal\<close> inverts \<^verbatim>\<open>json.Marshal\<close> on the saved state, the new
  governor has the fast EMA value, the slow EMA value and the current interval that were
  saved, whatever its own base interval.
\<close>

theorem saveState_restore_roundtrip:
  "save_succeeds os t g \<and> restore_reads_back os t g \<and> Time_Sub t' t \<le> Hour \<longrightarrow>
     ema_value (fastEMA (NewAdaptiveGovernor os t' (saveState os t g fs) base (stateDir g))) =
       ema_value (fastEMA g) \<and>
     ema_value (slowEMA (NewAdaptiveGovernor os t' (saveState os t g fs) base (stateDir g))) =
       ema_value (slowEMA g) \<and>
     currentInterval (NewAdaptiveGovernor os t' (saveState os t g fs) base (stateDir g)) =
       currentInterval g"
  using save_restore_roundtrip by blast

lemma saved_governor_io:
  "save_succeeds (sample_os (state_of 100 saved_governor)) 100 saved_governor \<and>
   restore_reads_back (sample_os (state_of 100 saved_governor)) 100 saved_governor \<and>
   Time_Sub (100 + 30 * Minute) 100 \<le> Hour"
  by (simp add: save_succeeds_def restore_reads_back_def sample_os_def Time_Sub_def
      maxDuration_def minDuration_def Hour_def Minute_def Second_def saved_governor_def)

theorem saveState_restore_roundtrip_witness:
  "Time_Sub (100 + 30 * Minute) 100 \<le> Hour \<and>
   ema_value (fastEMA (NewAdaptiveGovernor (sample_os (state_of 100 saved_governor))
                         (100 + 30 * Minute)
                         (saveState (sample_os (state_of 100 saved_governor)) 100 saved_governor
                            Map.empty)
                         (5 * Second) ''/var/otel/governor_state'')) = 4 / 5 \<and>
   ema_value (slowEMA (NewAdaptiveGovernor (sample_os (state_of 100 saved_governor))
                         (100 + 30 * Minute)
                         (saveState (sample_os (state_of 100 saved_governor)) 100 saved_governor
                            Map.empty)
                         (5 * Second) ''/var/otel/governor_state'')) = 1 / 2 \<and>
   currentInterval (NewAdaptiveGovernor (sample_os (state_of 100 saved_governor))
                      (100 + 30 * Minute)
                      (saveState (sample_os (state_of 100 saved_governor)) 100 saved_governor
                         Map.empty)
                      (5 * Second) ''/var/otel/governor_state'') = 2 * Second"
  using saveState_restore_roundtrip
    [of "sample_os (state_of 100 saved_governor)" 100 saved_governor "100 + 30 * Minute"
        Map.empty "5 * Second"]
    saved_governor_io
  by (simp add: saved_governor_def)

end
